theory Spec2Isabelle
  imports Main
begin

text \<open>
  A sign-in form with a second factor, and the mock server it talks to. The source
  files and the places of their text: \<^verbatim>\<open>api/types.ts\<close> (\<^verbatim>\<open>src/unnamed/part_000\<close>),
  \<^verbatim>\<open>mocks/handlers.ts\<close> (the second file in \<^verbatim>\<open>src/src/App.tsx\<close>, lines 14 to 198),
  \<^verbatim>\<open>api/auth.ts\<close> (\<^verbatim>\<open>src/src/api/auth.ts\<close>), \<^verbatim>\<open>pages/LoginPage.tsx\<close>,
  \<^verbatim>\<open>components/TwoFactorForm/TwoFactorForm.tsx\<close> and
  \<^verbatim>\<open>components/AuthForm/AuthForm.tsx\<close> (the three files in
  \<^verbatim>\<open>src/src/pages/LoginPage.tsx\<close>).
\<close>

section \<open>API types (api/types.ts)\<close>

text \<open>
  The interfaces of \<^verbatim>\<open>types.ts\<close>, one record each. The field \<^verbatim>\<open>id\<close> of
  \<^verbatim>\<open>User\<close> is called \<open>id_user\<close> (\<open>id\<close> is the identity function of HOL); fields
  that several interfaces share (\<^verbatim>\<open>email\<close>, \<^verbatim>\<open>token\<close>, \<^verbatim>\<open>user\<close>, \<^verbatim>\<open>tempToken\<close>)
  are written with the record's name in front. The optional \<^verbatim>\<open>tempToken?: string\<close>
  is a \<open>string option\<close>, \<open>None\<close> for \<^verbatim>\<open>undefined\<close>.
\<close>

record User =
  id_user :: int
  email :: string

record LoginResponse =
  token :: string
  user :: User
  requires2FA :: bool
  tempToken :: "string option"

record Verify2FAResponse =
  token :: string
  user :: User

record LoginCredentials =
  email :: string
  password :: string

record Verify2FACredentials =
  tempToken :: string
  code :: string

record ApiError =
  error :: string
  message :: string

text \<open>
  \<^verbatim>\<open>ApiErrorResponse\<close> is \<^verbatim>\<open>{status: number, data: ApiError}\<close>. The objects thrown by
  the client have the same two fields, but their \<^verbatim>\<open>data\<close> is whatever body the
  server sent, so the record takes the type of \<^verbatim>\<open>data\<close> as a parameter.
\<close>

record 'd ErrorResponse =
  status :: int
  data :: 'd

type_synonym ApiErrorResponse = "ApiError ErrorResponse"

section \<open>The mock server (mocks/handlers.ts)\<close>

subsection \<open>Test data\<close>

definition TEST_USERS_valid_email :: string where
  "TEST_USERS_valid_email = ''test@example.com''"

definition TEST_USERS_valid_password :: string where
  "TEST_USERS_valid_password = ''password123''"

definition TEST_USERS_notFound_email :: string where
  "TEST_USERS_notFound_email = ''notfound@example.com''"

definition TEST_USERS_serverError_email :: string where
  "TEST_USERS_serverError_email = ''error@example.com''"

definition TEST_USERS_slowResponse_email :: string where
  "TEST_USERS_slowResponse_email = ''slow@example.com''"

definition TEST_USERS_timeout_email :: string where
  "TEST_USERS_timeout_email = ''timeout@example.com''"

definition TEST_USERS_offline_email :: string where
  "TEST_USERS_offline_email = ''offline@example.com''"

definition TEST_2FA_CODES_valid :: string where
  "TEST_2FA_CODES_valid = ''123456''"

definition TEST_2FA_CODES_expired :: string where
  "TEST_2FA_CODES_expired = ''000000''"

definition TEST_2FA_CODES_timeout :: string where
  "TEST_2FA_CODES_timeout = ''999999''"

subsection \<open>The session store and the responses\<close>

text \<open>
  \<^verbatim>\<open>tempTokenStore\<close> is a \<^verbatim>\<open>Map<string, {email, createdAt}>\<close>: a partial map from the
  token to the data kept for it. The handlers mutate it; here each handler takes the
  store and returns the new one.
\<close>

record TokenData =
  email :: string
  createdAt :: int

type_synonym tempTokenStore = "string \<rightharpoonup> TokenData"

text \<open>
  The JSON bodies the handlers build: a \<^verbatim>\<open>LoginResponse\<close>, a \<^verbatim>\<open>Verify2FAResponse\<close>,
  an \<^verbatim>\<open>ApiError\<close>, or the object \<^verbatim>\<open>{message: ...}\<close> of the two timeout branches.
\<close>

datatype body =
  LoginResponseBody LoginResponse
| Verify2FAResponseBody Verify2FAResponse
| ApiErrorBody ApiError
| MessageBody string

text \<open>
  \<^verbatim>\<open>HttpResponse.json(body, {status})\<close> (status 200 when none is given) and
  \<^verbatim>\<open>HttpResponse.error()\<close>, the network error that carries no status and no body.
  A handler's result is the response together with the milliseconds it spent in
  \<^verbatim>\<open>await delay(ms)\<close> before returning it.
\<close>

datatype HttpResponse =
  HttpResponse_json body int
| HttpResponse_error

record Reply =
  delay_ms :: nat
  response :: HttpResponse

subsection \<open>Rendering \<^verbatim>\<open>Date.now()\<close> in a template string\<close>

definition digit :: "int \<Rightarrow> char" where
  "digit d = ''0123456789'' ! nat d"

function digits :: "int \<Rightarrow> string" where
  "digits n = (if n < 10 then [digit n] else digits (n div 10) @ [digit (n mod 10)])"
  by pat_completeness auto
termination
  by (relation "measure nat") auto

declare digits.simps [simp del]

text \<open>The decimal numeral of an integer, as \<^verbatim>\<open>`${n}`\<close> writes it.\<close>

definition String_of_number :: "int \<Rightarrow> string" where
  "String_of_number n = (if n < 0 then CHR ''-'' # digits (- n) else digits n)"

subsection \<open>POST /api/auth/login\<close>

text \<open>
  The handler reads \<^verbatim>\<open>Date.now()\<close> twice in a successful branch, first for the
  token and then for \<^verbatim>\<open>createdAt\<close>: the two readings are the arguments \<open>now1\<close>
  and \<open>now2\<close>. The branches are tried in the order of the source.
\<close>

definition login_handler ::
  "tempTokenStore \<Rightarrow> int \<Rightarrow> int \<Rightarrow> LoginCredentials \<Rightarrow> Reply \<times> tempTokenStore" where
  "login_handler store now1 now2 credentials =
    (let email = LoginCredentials.email credentials;
         password = LoginCredentials.password credentials
     in
     if email = TEST_USERS_slowResponse_email then
       (let tempToken = ''temp-token-'' @ String_of_number now1 in
        (\<lparr>delay_ms = 3000,
          response = HttpResponse_json (LoginResponseBody
            \<lparr>LoginResponse.token = '''',
             LoginResponse.user = \<lparr>id_user = 2, User.email = email\<rparr>,
             requires2FA = True,
             LoginResponse.tempToken = Some tempToken\<rparr>) 200\<rparr>,
         store(tempToken \<mapsto> \<lparr>TokenData.email = email, createdAt = now2\<rparr>)))
     else if email = TEST_USERS_timeout_email then
       (\<lparr>delay_ms = 30000,
         response = HttpResponse_json (MessageBody ''This should timeout'') 200\<rparr>, store)
     else if email = TEST_USERS_offline_email then
       (\<lparr>delay_ms = 0, response = HttpResponse_error\<rparr>, store)
     else if email = TEST_USERS_serverError_email then
       (\<lparr>delay_ms = 500,
         response = HttpResponse_json (ApiErrorBody
           \<lparr>error = ''server_error'', message = ''Something went wrong''\<rparr>) 500\<rparr>, store)
     else if email = TEST_USERS_notFound_email then
       (\<lparr>delay_ms = 500,
         response = HttpResponse_json (ApiErrorBody
           \<lparr>error = ''user_not_found'', message = ''User does not exist''\<rparr>) 404\<rparr>, store)
     else if email = TEST_USERS_valid_email \<and> password \<noteq> TEST_USERS_valid_password then
       (\<lparr>delay_ms = 500,
         response = HttpResponse_json (ApiErrorBody
           \<lparr>error = ''invalid_credentials'',
            message = ''Email or password is incorrect''\<rparr>) 401\<rparr>, store)
     else if email = TEST_USERS_valid_email \<and> password = TEST_USERS_valid_password then
       (let tempToken = ''temp-token-'' @ String_of_number now1 in
        (\<lparr>delay_ms = 800,
          response = HttpResponse_json (LoginResponseBody
            \<lparr>LoginResponse.token = '''',
             LoginResponse.user = \<lparr>id_user = 1, User.email = email\<rparr>,
             requires2FA = True,
             LoginResponse.tempToken = Some tempToken\<rparr>) 200\<rparr>,
         store(tempToken \<mapsto> \<lparr>TokenData.email = email, createdAt = now2\<rparr>)))
     else
       (\<lparr>delay_ms = 500,
         response = HttpResponse_json (ApiErrorBody
           \<lparr>error = ''user_not_found'', message = ''User does not exist''\<rparr>) 404\<rparr>, store))"

subsection \<open>POST /api/auth/verify-2fa\<close>

definition verify_2fa_handler ::
  "tempTokenStore \<Rightarrow> Verify2FACredentials \<Rightarrow> Reply \<times> tempTokenStore" where
  "verify_2fa_handler store credentials =
    (let tempToken = Verify2FACredentials.tempToken credentials;
         code = Verify2FACredentials.code credentials
     in
     if code = TEST_2FA_CODES_timeout then
       (\<lparr>delay_ms = 30000,
         response = HttpResponse_json (MessageBody ''This should timeout'') 200\<rparr>, store)
     else
       (case store tempToken of
          None \<Rightarrow>
            (\<lparr>delay_ms = 500,
              response = HttpResponse_json (ApiErrorBody
                \<lparr>error = ''2fa_expired'',
                 message = ''2FA session has expired. Please login again.''\<rparr>) 401\<rparr>, store)
        | Some tokenData \<Rightarrow>
            if code = TEST_2FA_CODES_expired then
              (\<lparr>delay_ms = 500,
                response = HttpResponse_json (ApiErrorBody
                  \<lparr>error = ''2fa_expired'',
                   message = ''2FA code has expired. Please request a new code.''\<rparr>) 401\<rparr>,
               store)
            else if code \<noteq> TEST_2FA_CODES_valid then
              (\<lparr>delay_ms = 500,
                response = HttpResponse_json (ApiErrorBody
                  \<lparr>error = ''invalid_2fa_code'',
                   message = ''Invalid verification code. Please try again.''\<rparr>) 401\<rparr>,
               store)
            else
              (\<lparr>delay_ms = 800,
                response = HttpResponse_json (Verify2FAResponseBody
                  \<lparr>Verify2FAResponse.token = ''fake-jwt-token-after-2fa'',
                   Verify2FAResponse.user =
                     \<lparr>id_user = 1, User.email = TokenData.email tokenData\<rparr>\<rparr>) 200\<rparr>,
               store(tempToken := None))))"

section \<open>The client (api/auth.ts)\<close>

subsection \<open>What the \<^verbatim>\<open>catch\<close> blocks see\<close>

text \<open>
  The value caught around \<^verbatim>\<open>apiClient.post\<close>. When \<^verbatim>\<open>axios.isAxiosError\<close> holds it
  is an \<^verbatim>\<open>AxiosError\<close>, of which the code reads \<^verbatim>\<open>code\<close> (a string or undefined)
  and \<^verbatim>\<open>response\<close> (undefined, or the status and the body received). Anything
  else that was thrown is \<open>NotAxiosError\<close>.
\<close>

datatype caught =
  AxiosError "string option" "(int \<times> body) option"
| NotAxiosError

text \<open>The \<^verbatim>\<open>catch\<close> block of \<^verbatim>\<open>login\<close>: the value it throws.\<close>

fun login_catch :: "caught \<Rightarrow> body ErrorResponse" where
  "login_catch (AxiosError axiosCode None) =
    (if axiosCode = Some ''ECONNABORTED'' then
       \<lparr>status = 0,
        data = ApiErrorBody \<lparr>error = ''timeout_error'', message = ''Request timed out''\<rparr>\<rparr>
     else
       \<lparr>status = 0,
        data = ApiErrorBody \<lparr>error = ''network_error'', message = ''Network error occurred''\<rparr>\<rparr>)"
| "login_catch (AxiosError axiosCode (Some (responseStatus, responseData))) =
    \<lparr>status = responseStatus, data = responseData\<rparr>"
| "login_catch NotAxiosError =
    \<lparr>status = 0,
     data = ApiErrorBody
       \<lparr>error = ''unknown_error'', message = ''An unexpected error occurred''\<rparr>\<rparr>"

text \<open>The \<^verbatim>\<open>catch\<close> block of \<^verbatim>\<open>verify2FA\<close>, written out a second time in the source.\<close>

fun verify2FA_catch :: "caught \<Rightarrow> body ErrorResponse" where
  "verify2FA_catch (AxiosError axiosCode None) =
    (if axiosCode = Some ''ECONNABORTED'' then
       \<lparr>status = 0,
        data = ApiErrorBody \<lparr>error = ''timeout_error'', message = ''Request timed out''\<rparr>\<rparr>
     else
       \<lparr>status = 0,
        data = ApiErrorBody \<lparr>error = ''network_error'', message = ''Network error occurred''\<rparr>\<rparr>)"
| "verify2FA_catch (AxiosError axiosCode (Some (responseStatus, responseData))) =
    \<lparr>status = responseStatus, data = responseData\<rparr>"
| "verify2FA_catch NotAxiosError =
    \<lparr>status = 0,
     data = ApiErrorBody
       \<lparr>error = ''unknown_error'', message = ''An unexpected error occurred''\<rparr>\<rparr>"

subsection \<open>The request\<close>

text \<open>
  \<^verbatim>\<open>apiClient\<close> is created with \<^verbatim>\<open>timeout: 10000\<close>. What \<^verbatim>\<open>apiClient.post\<close> makes of a
  handler's reply is the behaviour of axios, idealised to a network that adds no
  latency of its own: a reply delayed to the deadline or beyond is aborted with code
  \<^verbatim>\<open>ECONNABORTED\<close> and no response; \<^verbatim>\<open>HttpResponse.error()\<close> is a network error
  with no response; a status from 200 to 299 resolves with the body; any other status
  rejects with the response attached, under the code \<^verbatim>\<open>ERR_BAD_REQUEST\<close> for 400 to
  499, \<^verbatim>\<open>ERR_BAD_RESPONSE\<close> for 500 to 599 and no code otherwise.
\<close>

definition apiClient_timeout :: nat where
  "apiClient_timeout = 10000"

definition apiClient_post :: "Reply \<Rightarrow> caught + body" where
  "apiClient_post reply =
    (if apiClient_timeout \<le> delay_ms reply then Inl (AxiosError (Some ''ECONNABORTED'') None)
     else
       (case response reply of
          HttpResponse_error \<Rightarrow> Inl (AxiosError (Some ''ERR_NETWORK'') None)
        | HttpResponse_json responseData responseStatus \<Rightarrow>
            if 200 \<le> responseStatus \<and> responseStatus < 300 then Inr responseData
            else Inl (AxiosError
              (if 400 \<le> responseStatus \<and> responseStatus < 500 then Some ''ERR_BAD_REQUEST''
               else if 500 \<le> responseStatus \<and> responseStatus < 600 then
                 Some ''ERR_BAD_RESPONSE''
               else None)
              (Some (responseStatus, responseData)))))"

text \<open>
  \<^verbatim>\<open>login\<close> and \<^verbatim>\<open>verify2FA\<close>, against the mock server: \<open>Inr\<close> is the value
  returned (\<^verbatim>\<open>response.data\<close>), \<open>Inl\<close> the value thrown. The server's store is
  threaded through.
\<close>

definition login ::
  "tempTokenStore \<Rightarrow> int \<Rightarrow> int \<Rightarrow> LoginCredentials
    \<Rightarrow> (body ErrorResponse + body) \<times> tempTokenStore" where
  "login store now1 now2 credentials =
    (let (reply, store') = login_handler store now1 now2 credentials in
     (case apiClient_post reply of
        Inr responseData \<Rightarrow> Inr responseData
      | Inl err \<Rightarrow> Inl (login_catch err), store'))"

definition verify2FA ::
  "tempTokenStore \<Rightarrow> Verify2FACredentials
    \<Rightarrow> (body ErrorResponse + body) \<times> tempTokenStore" where
  "verify2FA store credentials =
    (let (reply, store') = verify_2fa_handler store credentials in
     (case apiClient_post reply of
        Inr responseData \<Rightarrow> Inr responseData
      | Inl err \<Rightarrow> Inl (verify2FA_catch err), store'))"

subsection \<open>The token in \<^verbatim>\<open>localStorage\<close>\<close>

text \<open>
  \<^verbatim>\<open>localStorage\<close> is a map from keys to strings; \<^verbatim>\<open>getItem\<close> of a missing key
  is \<^verbatim>\<open>null\<close>, here \<open>None\<close>. \<^verbatim>\<open>!!getToken()\<close> is false for \<^verbatim>\<open>null\<close> and for the
  empty string, true for every other string.
\<close>

type_synonym localStorage = "string \<rightharpoonup> string"

definition saveToken :: "string \<Rightarrow> localStorage \<Rightarrow> localStorage" where
  "saveToken tok storage = storage(''auth_token'' \<mapsto> tok)"

definition getToken :: "localStorage \<Rightarrow> string option" where
  "getToken storage = storage ''auth_token''"

definition removeToken :: "localStorage \<Rightarrow> localStorage" where
  "removeToken storage = storage(''auth_token'' := None)"

definition isAuthenticated :: "localStorage \<Rightarrow> bool" where
  "isAuthenticated storage = (case getToken storage of None \<Rightarrow> False | Some tok \<Rightarrow> tok \<noteq> [])"

section \<open>The forms (components/AuthForm, components/TwoFactorForm)\<close>

text \<open>
  Each form has its own \<^verbatim>\<open>getErrorMessage\<close>; the name of the form is appended here.
  \<^verbatim>\<open>data.message || '...'\<close> is the message unless it is the empty string.
\<close>

definition getErrorMessage_AuthForm :: "ApiErrorResponse \<Rightarrow> string" where
  "getErrorMessage_AuthForm err =
    (if status err = 0 then
       (if error (data err) = ''timeout_error'' then ''Request timed out. Please try again.''
        else if error (data err) = ''network_error'' then
          ''Connection problem. Please check your network.''
        else ''An unexpected error occurred. Please try again.'')
     else if status err = 401 then ''Incorrect email or password.''
     else if status err = 404 then ''User not found.''
     else if status err = 500 then ''Server error. Please try again later.''
     else if message (data err) \<noteq> [] then message (data err)
     else ''An unexpected error occurred.'')"

definition getErrorMessage_TwoFactorForm :: "ApiErrorResponse \<Rightarrow> string" where
  "getErrorMessage_TwoFactorForm err =
    (if status err = 0 then
       (if error (data err) = ''timeout_error'' then ''Request timed out. Please try again.''
        else if error (data err) = ''network_error'' then
          ''Connection problem. Please check your network.''
        else ''An unexpected error occurred. Please try again.'')
     else if error (data err) = ''invalid_2fa_code'' then
       ''Invalid verification code. Please try again.''
     else if error (data err) = ''2fa_expired'' then
       ''Verification session expired. Please login again.''
     else if message (data err) \<noteq> [] then message (data err)
     else ''An unexpected error occurred.'')"

section \<open>The page (pages/LoginPage.tsx)\<close>

text \<open>The two \<^verbatim>\<open>useState\<close> cells of \<^verbatim>\<open>LoginPage\<close>, with their initial values.\<close>

record TwoFactorState =
  tempToken :: string
  userEmail :: string

record LoginPage =
  twoFactorState :: "TwoFactorState option"
  isFullyAuthenticated :: bool

definition LoginPage_initial :: LoginPage where
  "LoginPage_initial = \<lparr>twoFactorState = None, isFullyAuthenticated = False\<rparr>"

text \<open>
  \<^verbatim>\<open>response.requires2FA && response.tempToken\<close> holds when the flag is set and the
  token is a non-empty string.
\<close>

definition handleLoginSuccess :: "LoginResponse \<Rightarrow> LoginPage \<Rightarrow> LoginPage" where
  "handleLoginSuccess response' page =
    (case LoginResponse.tempToken response' of
       Some tok \<Rightarrow>
         if requires2FA response' \<and> tok \<noteq> [] then
           page\<lparr>twoFactorState := Some
             \<lparr>TwoFactorState.tempToken = tok,
              userEmail = User.email (LoginResponse.user response')\<rparr>\<rparr>
         else page\<lparr>isFullyAuthenticated := True\<rparr>
     | None \<Rightarrow> page\<lparr>isFullyAuthenticated := True\<rparr>)"

definition handle2FASuccess :: "Verify2FAResponse \<Rightarrow> LoginPage \<Rightarrow> LoginPage" where
  "handle2FASuccess response' page = page\<lparr>isFullyAuthenticated := True\<rparr>"

definition handleBackToLogin :: "LoginPage \<Rightarrow> LoginPage" where
  "handleBackToLogin page = page\<lparr>twoFactorState := None\<rparr>"

text \<open>The \<^verbatim>\<open>onClick\<close> of the button "Sign out (demo)".\<close>

definition signOut_onClick :: "LoginPage \<Rightarrow> LoginPage" where
  "signOut_onClick page = page\<lparr>isFullyAuthenticated := False, twoFactorState := None\<rparr>"

text \<open>
  What the page renders: the success screen, the 2FA form or the login form. These
  are the three states of the flow.
\<close>

datatype FlowState = AwaitingCredentials | AwaitingCode | Authenticated

definition render :: "LoginPage \<Rightarrow> FlowState" where
  "render page =
    (if isFullyAuthenticated page then Authenticated
     else if twoFactorState page \<noteq> None then AwaitingCode
     else AwaitingCredentials)"

subsection \<open>The mutations and the events of the browser\<close>

text \<open>
  The browser's state is the \<^verbatim>\<open>localStorage\<close> and the page. The \<^verbatim>\<open>onSuccess\<close> of
  each form's mutation saves the response's token and then calls the page's handler;
  neither mutation has an \<^verbatim>\<open>onError\<close>, so a rejected request changes nothing.
\<close>

record Browser =
  storage :: localStorage
  page :: LoginPage

definition loginMutation_onSuccess :: "LoginResponse \<Rightarrow> Browser \<Rightarrow> Browser" where
  "loginMutation_onSuccess response' b =
    \<lparr>storage = saveToken (LoginResponse.token response') (storage b),
     page = handleLoginSuccess response' (page b)\<rparr>"

definition verify2FAMutation_onSuccess :: "Verify2FAResponse \<Rightarrow> Browser \<Rightarrow> Browser" where
  "verify2FAMutation_onSuccess response' b =
    \<lparr>storage = saveToken (Verify2FAResponse.token response') (storage b),
     page = handle2FASuccess response' (page b)\<rparr>"

datatype event =
  LoginResolved LoginResponse
| LoginRejected ApiErrorResponse
| Verify2FAResolved Verify2FAResponse
| Verify2FARejected ApiErrorResponse
| BackClicked
| SignOutClicked

fun step :: "Browser \<Rightarrow> event \<Rightarrow> Browser" where
  "step b (LoginResolved response') = loginMutation_onSuccess response' b"
| "step b (LoginRejected err) = b"
| "step b (Verify2FAResolved response') = verify2FAMutation_onSuccess response' b"
| "step b (Verify2FARejected err) = b"
| "step b BackClicked = b\<lparr>page := handleBackToLogin (page b)\<rparr>"
| "step b SignOutClicked = b\<lparr>page := signOut_onClick (page b)\<rparr>"

definition run :: "Browser \<Rightarrow> event list \<Rightarrow> Browser" where
  "run b events = foldl step b events"

fun is_Verify2FAResolved :: "event \<Rightarrow> bool" where
  "is_Verify2FAResolved (Verify2FAResolved response') = True"
| "is_Verify2FAResolved ev = False"

text \<open>
  A login response that takes the \<^verbatim>\<open>else\<close> branch of \<^verbatim>\<open>handleLoginSuccess\<close>: its
  \<^verbatim>\<open>requires2FA\<close> is false, or its \<^verbatim>\<open>tempToken\<close> is missing or empty.
\<close>

fun skips_2FA :: "event \<Rightarrow> bool" where
  "skips_2FA (LoginResolved response') =
    (\<not> (requires2FA response' \<and>
        (case LoginResponse.tempToken response' of None \<Rightarrow> False | Some tok \<Rightarrow> tok \<noteq> [])))"
| "skips_2FA ev = False"

text \<open>
  The two ways into that branch. A login response whose \<^verbatim>\<open>requires2FA\<close> is false is
  the "direct login without 2FA" the branch is written for; one that requires 2FA
  but carries no \<^verbatim>\<open>tempToken\<close>, or an empty one, falls into it as well.
\<close>

fun is_direct_login :: "event \<Rightarrow> bool" where
  "is_direct_login (LoginResolved response') = (\<not> requires2FA response')"
| "is_direct_login ev = False"

fun requires2FA_without_tempToken :: "event \<Rightarrow> bool" where
  "requires2FA_without_tempToken (LoginResolved response') =
    (requires2FA response' \<and>
     (case LoginResponse.tempToken response' of None \<Rightarrow> True | Some tok \<Rightarrow> tok = []))"
| "requires2FA_without_tempToken ev = False"

text \<open>An event after which the token in \<^verbatim>\<open>localStorage\<close> is as empty as before.\<close>

fun saves_no_token :: "event \<Rightarrow> bool" where
  "saves_no_token (LoginResolved response') = (LoginResponse.token response' = [])"
| "saves_no_token (Verify2FAResolved response') = False"
| "saves_no_token ev = True"

section \<open>Properties of the mock server\<close>

subsection \<open>Auxiliary facts\<close>

lemmas test_data_defs =
  TEST_USERS_valid_email_def TEST_USERS_valid_password_def TEST_USERS_notFound_email_def
  TEST_USERS_serverError_email_def TEST_USERS_slowResponse_email_def
  TEST_USERS_timeout_email_def TEST_USERS_offline_email_def
  TEST_2FA_CODES_valid_def TEST_2FA_CODES_expired_def TEST_2FA_CODES_timeout_def

lemma verify_2fa_handler_absent:
  "store tok = None \<Longrightarrow> c \<noteq> ''999999'' \<Longrightarrow>
   verify_2fa_handler store \<lparr>Verify2FACredentials.tempToken = tok, code = c\<rparr> =
     (\<lparr>delay_ms = 500,
       response = HttpResponse_json (ApiErrorBody
         \<lparr>error = ''2fa_expired'',
          message = ''2FA session has expired. Please login again.''\<rparr>) 401\<rparr>, store)"
  by (simp add: verify_2fa_handler_def test_data_defs)

lemma verify_2fa_handler_valid:
  "store tok = Some tokenData \<Longrightarrow>
   verify_2fa_handler store \<lparr>Verify2FACredentials.tempToken = tok, code = ''123456''\<rparr> =
     (\<lparr>delay_ms = 800,
       response = HttpResponse_json (Verify2FAResponseBody
         \<lparr>Verify2FAResponse.token = ''fake-jwt-token-after-2fa'',
          Verify2FAResponse.user =
            \<lparr>id_user = 1, User.email = TokenData.email tokenData\<rparr>\<rparr>) 200\<rparr>,
      store(tok := None))"
  by (simp add: verify_2fa_handler_def test_data_defs)

text \<open>A successful login reply: which branch, which token, which store.\<close>

lemma login_handler_success:
  assumes "login_handler store now1 now2 credentials = (reply, store1)"
    and "response reply = HttpResponse_json (LoginResponseBody issued) st"
  shows "LoginResponse.tempToken issued = Some (''temp-token-'' @ String_of_number now1)"
    and "store1 = store(''temp-token-'' @ String_of_number now1 \<mapsto>
           \<lparr>TokenData.email = LoginCredentials.email credentials, createdAt = now2\<rparr>)"
    and "LoginResponse.token issued = []"
    and "requires2FA issued"
    and "User.email (LoginResponse.user issued) = LoginCredentials.email credentials"
    and "st = 200"
  using assms
  by (auto simp: login_handler_def Let_def split: if_splits)

lemma String_of_number_17: "String_of_number 1700000000000 = ''1700000000000''"
  by (simp add: String_of_number_def digits.simps digit_def)

lemma verify_2fa_handler_expired:
  "store tok = Some tokenData \<Longrightarrow>
   verify_2fa_handler store \<lparr>Verify2FACredentials.tempToken = tok, code = ''000000''\<rparr> =
     (\<lparr>delay_ms = 500,
       response = HttpResponse_json (ApiErrorBody
         \<lparr>error = ''2fa_expired'',
          message = ''2FA code has expired. Please request a new code.''\<rparr>) 401\<rparr>, store)"
  by (simp add: verify_2fa_handler_def test_data_defs)

lemma verify_2fa_handler_invalid:
  "store tok = Some tokenData \<Longrightarrow> c \<noteq> ''999999'' \<Longrightarrow> c \<noteq> ''000000'' \<Longrightarrow>
   c \<noteq> ''123456'' \<Longrightarrow>
   verify_2fa_handler store \<lparr>Verify2FACredentials.tempToken = tok, code = c\<rparr> =
     (\<lparr>delay_ms = 500,
       response = HttpResponse_json (ApiErrorBody
         \<lparr>error = ''invalid_2fa_code'',
          message = ''Invalid verification code. Please try again.''\<rparr>) 401\<rparr>, store)"
  by (simp add: verify_2fa_handler_def test_data_defs)

lemma verify_2fa_handler_timeout:
  "verify_2fa_handler store \<lparr>Verify2FACredentials.tempToken = tok, code = ''999999''\<rparr> =
     (\<lparr>delay_ms = 30000,
       response = HttpResponse_json (MessageBody ''This should timeout'') 200\<rparr>, store)"
  by (simp add: verify_2fa_handler_def test_data_defs)

text \<open>The store changes in the last branch only.\<close>

lemma verify_2fa_handler_changes_store:
  assumes "snd (verify_2fa_handler store credentials) \<noteq> store"
  shows "Verify2FACredentials.code credentials = ''123456''"
    and "store (Verify2FACredentials.tempToken credentials) \<noteq> None"
    and "\<exists>verified. fst (verify_2fa_handler store credentials) =
           \<lparr>delay_ms = 800, response = HttpResponse_json (Verify2FAResponseBody verified) 200\<rparr>"
  using assms
  by (auto simp: verify_2fa_handler_def Let_def test_data_defs split: if_splits option.splits)

lemma verify_2fa_handler_verified:
  assumes "response (fst (verify_2fa_handler store credentials)) =
      HttpResponse_json (Verify2FAResponseBody verified) st"
  shows "\<exists>tokenData. store (Verify2FACredentials.tempToken credentials) = Some tokenData \<and>
      verified = \<lparr>Verify2FAResponse.token = ''fake-jwt-token-after-2fa'',
        Verify2FAResponse.user = \<lparr>id_user = 1, User.email = TokenData.email tokenData\<rparr>\<rparr>"
    and "st = 200"
    and "Verify2FACredentials.code credentials = ''123456''"
  using assms
  by (auto simp: verify_2fa_handler_def Let_def test_data_defs split: if_splits option.splits)

lemma apiClient_post_late:
  "apiClient_timeout \<le> delay_ms reply \<Longrightarrow>
   apiClient_post reply = Inl (AxiosError (Some ''ECONNABORTED'') None)"
  by (simp add: apiClient_post_def)

subsection \<open>Tokens are single-use\<close>

text \<open>
  C1. A token issued by a successful login is single-use. Whenever the login handler
  answers with a \<^verbatim>\<open>LoginResponse\<close> carrying the token \<open>tok\<close>, verifying \<open>tok\<close> with
  the code 123456 succeeds and deletes the entry of \<open>tok\<close> from the store, and
  verifying \<open>tok\<close> with the same code a second time, on the store the first
  verification left, is answered 401 \<^verbatim>\<open>2fa_expired\<close>.
\<close>

theorem token_is_single_use:
  assumes "login_handler store now1 now2 credentials = (reply, store1)"
    and "response reply = HttpResponse_json (LoginResponseBody issued) 200"
    and "LoginResponse.tempToken issued = Some tok"
  shows "verify_2fa_handler store1 \<lparr>Verify2FACredentials.tempToken = tok, code = ''123456''\<rparr> =
           (\<lparr>delay_ms = 800,
             response = HttpResponse_json (Verify2FAResponseBody
               \<lparr>Verify2FAResponse.token = ''fake-jwt-token-after-2fa'',
                Verify2FAResponse.user =
                  \<lparr>id_user = 1, User.email = LoginCredentials.email credentials\<rparr>\<rparr>) 200\<rparr>,
            store1(tok := None))
       \<and> (store1(tok := None)) tok = None
       \<and> verify_2fa_handler (store1(tok := None))
             \<lparr>Verify2FACredentials.tempToken = tok, code = ''123456''\<rparr> =
           (\<lparr>delay_ms = 500,
             response = HttpResponse_json (ApiErrorBody
               \<lparr>error = ''2fa_expired'',
                message = ''2FA session has expired. Please login again.''\<rparr>) 401\<rparr>,
            store1(tok := None))"
proof -
  have tok: "tok = ''temp-token-'' @ String_of_number now1"
    using login_handler_success(1) [OF assms(1,2)] assms(3) by simp
  have "store1 tok =
      Some \<lparr>TokenData.email = LoginCredentials.email credentials, createdAt = now2\<rparr>"
    using login_handler_success(2) [OF assms(1,2)] tok by simp
  from verify_2fa_handler_valid [of store1 tok, OF this]
  have first: "verify_2fa_handler store1
      \<lparr>Verify2FACredentials.tempToken = tok, code = ''123456''\<rparr> =
    (\<lparr>delay_ms = 800,
      response = HttpResponse_json (Verify2FAResponseBody
        \<lparr>Verify2FAResponse.token = ''fake-jwt-token-after-2fa'',
         Verify2FAResponse.user =
           \<lparr>id_user = 1, User.email = LoginCredentials.email credentials\<rparr>\<rparr>) 200\<rparr>,
     store1(tok := None))"
    by simp
  have gone: "(store1(tok := None)) tok = None"
    by simp
  have second: "verify_2fa_handler (store1(tok := None))
      \<lparr>Verify2FACredentials.tempToken = tok, code = ''123456''\<rparr> =
    (\<lparr>delay_ms = 500,
      response = HttpResponse_json (ApiErrorBody
        \<lparr>error = ''2fa_expired'',
         message = ''2FA session has expired. Please login again.''\<rparr>) 401\<rparr>,
     store1(tok := None))"
    using gone by (simp add: verify_2fa_handler_absent)
  from first gone second show ?thesis by blast
qed

theorem token_is_single_use_witness:
  "login_handler Map.empty 1700000000000 1700000000001
      \<lparr>LoginCredentials.email = ''test@example.com'', password = ''password123''\<rparr> =
     (\<lparr>delay_ms = 800,
       response = HttpResponse_json (LoginResponseBody
         \<lparr>LoginResponse.token = '''',
          LoginResponse.user = \<lparr>id_user = 1, User.email = ''test@example.com''\<rparr>,
          requires2FA = True,
          LoginResponse.tempToken = Some ''temp-token-1700000000000''\<rparr>) 200\<rparr>,
      [''temp-token-1700000000000'' \<mapsto>
         \<lparr>TokenData.email = ''test@example.com'', createdAt = 1700000000001\<rparr>])
   \<and> fst (verify_2fa_handler
        [''temp-token-1700000000000'' \<mapsto>
           \<lparr>TokenData.email = ''test@example.com'', createdAt = 1700000000001\<rparr>]
        \<lparr>Verify2FACredentials.tempToken = ''temp-token-1700000000000'', code = ''123456''\<rparr>) =
     \<lparr>delay_ms = 800,
      response = HttpResponse_json (Verify2FAResponseBody
        \<lparr>Verify2FAResponse.token = ''fake-jwt-token-after-2fa'',
         Verify2FAResponse.user = \<lparr>id_user = 1, User.email = ''test@example.com''\<rparr>\<rparr>) 200\<rparr>
   \<and> fst (verify_2fa_handler Map.empty
        \<lparr>Verify2FACredentials.tempToken = ''temp-token-1700000000000'', code = ''123456''\<rparr>) =
     \<lparr>delay_ms = 500,
      response = HttpResponse_json (ApiErrorBody
        \<lparr>error = ''2fa_expired'',
         message = ''2FA session has expired. Please login again.''\<rparr>) 401\<rparr>"
proof -
  have login: "login_handler Map.empty 1700000000000 1700000000001
      \<lparr>LoginCredentials.email = ''test@example.com'', password = ''password123''\<rparr> =
     (\<lparr>delay_ms = 800,
       response = HttpResponse_json (LoginResponseBody
         \<lparr>LoginResponse.token = '''',
          LoginResponse.user = \<lparr>id_user = 1, User.email = ''test@example.com''\<rparr>,
          requires2FA = True,
          LoginResponse.tempToken = Some ''temp-token-1700000000000''\<rparr>) 200\<rparr>,
      [''temp-token-1700000000000'' \<mapsto>
         \<lparr>TokenData.email = ''test@example.com'', createdAt = 1700000000001\<rparr>])"
    by (simp add: login_handler_def Let_def test_data_defs String_of_number_17)
  show ?thesis
    using login token_is_single_use [OF login, of _ "''temp-token-1700000000000''"]
    by simp
qed

subsection \<open>The login decision table\<close>

text \<open>
  C5. Login with test@example.com and password123 always succeeds: the response has
  \<^verbatim>\<open>requires2FA\<close> set, the empty string as \<^verbatim>\<open>token\<close> and a non-empty \<^verbatim>\<open>tempToken\<close>,
  under which a session is stored. Login with an email that is none of the six test
  emails is always answered 404 \<^verbatim>\<open>user_not_found\<close>, the store unchanged. No
  \<^verbatim>\<open>LoginResponse\<close> the handler sends carries a terminal token: its \<^verbatim>\<open>token\<close> is
  empty, \<^verbatim>\<open>requires2FA\<close> is set and a \<^verbatim>\<open>tempToken\<close> is present.
\<close>

theorem login_decision_table:
  "login_handler store now1 now2
      \<lparr>LoginCredentials.email = ''test@example.com'', password = ''password123''\<rparr> =
     (\<lparr>delay_ms = 800,
       response = HttpResponse_json (LoginResponseBody
         \<lparr>LoginResponse.token = '''',
          LoginResponse.user = \<lparr>id_user = 1, User.email = ''test@example.com''\<rparr>,
          requires2FA = True,
          LoginResponse.tempToken = Some (''temp-token-'' @ String_of_number now1)\<rparr>) 200\<rparr>,
      store(''temp-token-'' @ String_of_number now1 \<mapsto>
        \<lparr>TokenData.email = ''test@example.com'', createdAt = now2\<rparr>))
   \<and> ''temp-token-'' @ String_of_number now1 \<noteq> ''''
   \<and> (email' \<notin> {''test@example.com'', ''notfound@example.com'', ''error@example.com'',
          ''slow@example.com'', ''timeout@example.com'', ''offline@example.com''} \<longrightarrow>
        login_handler store now1 now2
          \<lparr>LoginCredentials.email = email', password = password'\<rparr> =
        (\<lparr>delay_ms = 500,
          response = HttpResponse_json (ApiErrorBody
            \<lparr>error = ''user_not_found'', message = ''User does not exist''\<rparr>) 404\<rparr>, store))
   \<and> (response (fst (login_handler store now1 now2 credentials)) =
          HttpResponse_json (LoginResponseBody issued) st \<longrightarrow>
        LoginResponse.token issued = '''' \<and> requires2FA issued
        \<and> LoginResponse.tempToken issued = Some (''temp-token-'' @ String_of_number now1))"
proof -
  have valid: "login_handler store now1 now2
      \<lparr>LoginCredentials.email = ''test@example.com'', password = ''password123''\<rparr> =
     (\<lparr>delay_ms = 800,
       response = HttpResponse_json (LoginResponseBody
         \<lparr>LoginResponse.token = '''',
          LoginResponse.user = \<lparr>id_user = 1, User.email = ''test@example.com''\<rparr>,
          requires2FA = True,
          LoginResponse.tempToken = Some (''temp-token-'' @ String_of_number now1)\<rparr>) 200\<rparr>,
      store(''temp-token-'' @ String_of_number now1 \<mapsto>
        \<lparr>TokenData.email = ''test@example.com'', createdAt = now2\<rparr>))"
    by (simp add: login_handler_def Let_def test_data_defs)
  have other: "email' \<notin> {''test@example.com'', ''notfound@example.com'', ''error@example.com'',
          ''slow@example.com'', ''timeout@example.com'', ''offline@example.com''} \<longrightarrow>
        login_handler store now1 now2
          \<lparr>LoginCredentials.email = email', password = password'\<rparr> =
        (\<lparr>delay_ms = 500,
          response = HttpResponse_json (ApiErrorBody
            \<lparr>error = ''user_not_found'', message = ''User does not exist''\<rparr>) 404\<rparr>, store)"
    by (simp add: login_handler_def Let_def test_data_defs)
  have never: "response (fst (login_handler store now1 now2 credentials)) =
          HttpResponse_json (LoginResponseBody issued) st \<longrightarrow>
        LoginResponse.token issued = '''' \<and> requires2FA issued
        \<and> LoginResponse.tempToken issued = Some (''temp-token-'' @ String_of_number now1)"
    using login_handler_success(1,3,4)
      [of store now1 now2 credentials "fst (login_handler store now1 now2 credentials)"
          "snd (login_handler store now1 now2 credentials)" issued st]
    by simp
  from valid other never show ?thesis by simp
qed

theorem login_decision_table_witness:
  "''nobody@example.com'' \<notin> {''test@example.com'', ''notfound@example.com'',
      ''error@example.com'', ''slow@example.com'', ''timeout@example.com'',
      ''offline@example.com''}
   \<and> login_handler Map.empty 1700000000000 1700000000001
        \<lparr>LoginCredentials.email = ''nobody@example.com'', password = ''password123''\<rparr> =
      (\<lparr>delay_ms = 500,
        response = HttpResponse_json (ApiErrorBody
          \<lparr>error = ''user_not_found'', message = ''User does not exist''\<rparr>) 404\<rparr>, Map.empty)
   \<and> response (fst (login_handler Map.empty 1700000000000 1700000000001
        \<lparr>LoginCredentials.email = ''slow@example.com'', password = ''whatever''\<rparr>)) =
      HttpResponse_json (LoginResponseBody
         \<lparr>LoginResponse.token = '''',
          LoginResponse.user = \<lparr>id_user = 2, User.email = ''slow@example.com''\<rparr>,
          requires2FA = True,
          LoginResponse.tempToken = Some ''temp-token-1700000000000''\<rparr>) 200"
proof -
  have slow: "response (fst (login_handler Map.empty 1700000000000 1700000000001
        \<lparr>LoginCredentials.email = ''slow@example.com'', password = ''whatever''\<rparr>)) =
      HttpResponse_json (LoginResponseBody
         \<lparr>LoginResponse.token = '''',
          LoginResponse.user = \<lparr>id_user = 2, User.email = ''slow@example.com''\<rparr>,
          requires2FA = True,
          LoginResponse.tempToken = Some ''temp-token-1700000000000''\<rparr>) 200"
    by (simp add: login_handler_def Let_def test_data_defs String_of_number_17)
  show ?thesis
    using slow login_decision_table
      [of Map.empty 1700000000000 1700000000001 "''nobody@example.com''" "''password123''"
          "\<lparr>LoginCredentials.email = ''slow@example.com'', password = ''whatever''\<rparr>"
          "\<lparr>LoginResponse.token = '''',
            LoginResponse.user = \<lparr>id_user = 2, User.email = ''slow@example.com''\<rparr>,
            requires2FA = True,
            LoginResponse.tempToken = Some ''temp-token-1700000000000''\<rparr>" 200]
    by simp
qed

subsection \<open>Failed verifications\<close>

text \<open>
  The code 999999 is answered by neither 401: the handler waits 30000 ms and sends
  status 200 with a message, whatever the token, and the client, whose deadline is
  10000 ms, fails with \<^verbatim>\<open>timeout_error\<close> and status 0.
\<close>

theorem verify_timeout_code_counterexample:
  "Map.empty ''temp-token-1'' = (None :: TokenData option)
   \<and> ''999999'' \<noteq> ''123456''
   \<and> verify_2fa_handler Map.empty
        \<lparr>Verify2FACredentials.tempToken = ''temp-token-1'', code = ''999999''\<rparr> =
      (\<lparr>delay_ms = 30000,
        response = HttpResponse_json (MessageBody ''This should timeout'') 200\<rparr>, Map.empty)
   \<and> response (fst (verify_2fa_handler Map.empty
        \<lparr>Verify2FACredentials.tempToken = ''temp-token-1'', code = ''999999''\<rparr>)) \<noteq>
      HttpResponse_json (ApiErrorBody
        \<lparr>error = ''2fa_expired'',
         message = ''2FA session has expired. Please login again.''\<rparr>) 401
   \<and> response (fst (verify_2fa_handler Map.empty
        \<lparr>Verify2FACredentials.tempToken = ''temp-token-1'', code = ''999999''\<rparr>)) \<noteq>
      HttpResponse_json (ApiErrorBody
        \<lparr>error = ''invalid_2fa_code'',
         message = ''Invalid verification code. Please try again.''\<rparr>) 401
   \<and> fst (verify2FA Map.empty
        \<lparr>Verify2FACredentials.tempToken = ''temp-token-1'', code = ''999999''\<rparr>) =
      Inl \<lparr>status = 0,
           data = ApiErrorBody \<lparr>error = ''timeout_error'', message = ''Request timed out''\<rparr>\<rparr>"
  by (simp add: verify2FA_def verify_2fa_handler_timeout apiClient_post_late
      apiClient_timeout_def)

text \<open>
  C6, with the timeout code 999999 excepted from the 401 answers. A token absent from
  the store is answered 401 \<^verbatim>\<open>2fa_expired\<close> for every code but 999999; the code
  000000 against a live token is answered 401 \<^verbatim>\<open>2fa_expired\<close>; any other code but
  123456 and 999999 against a live token is answered 401 \<^verbatim>\<open>invalid_2fa_code\<close>; each
  of these leaves the store as it was. For every code, 999999 included, the store
  changes only when the token is live and the code is 123456, and then the answer is
  the successful one.
\<close>

theorem verify_failures_keep_store:
  "(c \<noteq> ''999999'' \<and> store tok = None \<longrightarrow>
      verify_2fa_handler store \<lparr>Verify2FACredentials.tempToken = tok, code = c\<rparr> =
        (\<lparr>delay_ms = 500,
          response = HttpResponse_json (ApiErrorBody
            \<lparr>error = ''2fa_expired'',
             message = ''2FA session has expired. Please login again.''\<rparr>) 401\<rparr>, store))
   \<and> (store tok \<noteq> None \<and> c = ''000000'' \<longrightarrow>
      verify_2fa_handler store \<lparr>Verify2FACredentials.tempToken = tok, code = c\<rparr> =
        (\<lparr>delay_ms = 500,
          response = HttpResponse_json (ApiErrorBody
            \<lparr>error = ''2fa_expired'',
             message = ''2FA code has expired. Please request a new code.''\<rparr>) 401\<rparr>, store))
   \<and> (c \<noteq> ''999999'' \<and> store tok \<noteq> None \<and> c \<noteq> ''000000'' \<and> c \<noteq> ''123456'' \<longrightarrow>
      verify_2fa_handler store \<lparr>Verify2FACredentials.tempToken = tok, code = c\<rparr> =
        (\<lparr>delay_ms = 500,
          response = HttpResponse_json (ApiErrorBody
            \<lparr>error = ''invalid_2fa_code'',
             message = ''Invalid verification code. Please try again.''\<rparr>) 401\<rparr>, store))
   \<and> (snd (verify_2fa_handler store \<lparr>Verify2FACredentials.tempToken = tok, code = c\<rparr>)
          \<noteq> store \<longrightarrow>
      store tok \<noteq> None \<and> c = ''123456'' \<and>
      (\<exists>verified.
        fst (verify_2fa_handler store \<lparr>Verify2FACredentials.tempToken = tok, code = c\<rparr>) =
        \<lparr>delay_ms = 800,
         response = HttpResponse_json (Verify2FAResponseBody verified) 200\<rparr>))"
proof -
  let ?credentials = "\<lparr>Verify2FACredentials.tempToken = tok, code = c\<rparr>"
  have absent: "c \<noteq> ''999999'' \<and> store tok = None \<longrightarrow>
      verify_2fa_handler store ?credentials =
        (\<lparr>delay_ms = 500,
          response = HttpResponse_json (ApiErrorBody
            \<lparr>error = ''2fa_expired'',
             message = ''2FA session has expired. Please login again.''\<rparr>) 401\<rparr>, store)"
    by (simp add: verify_2fa_handler_absent)
  have expired: "store tok \<noteq> None \<and> c = ''000000'' \<longrightarrow>
      verify_2fa_handler store ?credentials =
        (\<lparr>delay_ms = 500,
          response = HttpResponse_json (ApiErrorBody
            \<lparr>error = ''2fa_expired'',
             message = ''2FA code has expired. Please request a new code.''\<rparr>) 401\<rparr>, store)"
    by (auto simp: verify_2fa_handler_expired)
  have invalid: "c \<noteq> ''999999'' \<and> store tok \<noteq> None \<and> c \<noteq> ''000000'' \<and> c \<noteq> ''123456''
      \<longrightarrow> verify_2fa_handler store ?credentials =
        (\<lparr>delay_ms = 500,
          response = HttpResponse_json (ApiErrorBody
            \<lparr>error = ''invalid_2fa_code'',
             message = ''Invalid verification code. Please try again.''\<rparr>) 401\<rparr>, store)"
    by (auto simp: verify_2fa_handler_invalid)
  have only: "snd (verify_2fa_handler store ?credentials) \<noteq> store \<longrightarrow>
      store tok \<noteq> None \<and> c = ''123456'' \<and>
      (\<exists>verified. fst (verify_2fa_handler store ?credentials) =
        \<lparr>delay_ms = 800,
         response = HttpResponse_json (Verify2FAResponseBody verified) 200\<rparr>)"
    using verify_2fa_handler_changes_store [of store ?credentials] by simp
  from absent expired invalid only show ?thesis
    by (intro conjI)
qed

theorem verify_failures_keep_store_witness:
  "''654321'' \<noteq> ''999999''
   \<and> Map.empty ''temp-token-42'' = (None :: TokenData option)
   \<and> verify_2fa_handler Map.empty
        \<lparr>Verify2FACredentials.tempToken = ''temp-token-42'', code = ''654321''\<rparr> =
      (\<lparr>delay_ms = 500,
        response = HttpResponse_json (ApiErrorBody
          \<lparr>error = ''2fa_expired'',
           message = ''2FA session has expired. Please login again.''\<rparr>) 401\<rparr>, Map.empty)
   \<and> verify_2fa_handler
        [''temp-token-42'' \<mapsto> \<lparr>TokenData.email = ''test@example.com'', createdAt = 43\<rparr>]
        \<lparr>Verify2FACredentials.tempToken = ''temp-token-42'', code = ''000000''\<rparr> =
      (\<lparr>delay_ms = 500,
        response = HttpResponse_json (ApiErrorBody
          \<lparr>error = ''2fa_expired'',
           message = ''2FA code has expired. Please request a new code.''\<rparr>) 401\<rparr>,
       [''temp-token-42'' \<mapsto> \<lparr>TokenData.email = ''test@example.com'', createdAt = 43\<rparr>])
   \<and> verify_2fa_handler
        [''temp-token-42'' \<mapsto> \<lparr>TokenData.email = ''test@example.com'', createdAt = 43\<rparr>]
        \<lparr>Verify2FACredentials.tempToken = ''temp-token-42'', code = ''654321''\<rparr> =
      (\<lparr>delay_ms = 500,
        response = HttpResponse_json (ApiErrorBody
          \<lparr>error = ''invalid_2fa_code'',
           message = ''Invalid verification code. Please try again.''\<rparr>) 401\<rparr>,
       [''temp-token-42'' \<mapsto> \<lparr>TokenData.email = ''test@example.com'', createdAt = 43\<rparr>])
   \<and> snd (verify_2fa_handler
        [''temp-token-42'' \<mapsto> \<lparr>TokenData.email = ''test@example.com'', createdAt = 43\<rparr>]
        \<lparr>Verify2FACredentials.tempToken = ''temp-token-42'', code = ''123456''\<rparr>) \<noteq>
      [''temp-token-42'' \<mapsto> \<lparr>TokenData.email = ''test@example.com'', createdAt = 43\<rparr>]
   \<and> (\<exists>verified. fst (verify_2fa_handler
        [''temp-token-42'' \<mapsto> \<lparr>TokenData.email = ''test@example.com'', createdAt = 43\<rparr>]
        \<lparr>Verify2FACredentials.tempToken = ''temp-token-42'', code = ''123456''\<rparr>) =
      \<lparr>delay_ms = 800, response = HttpResponse_json (Verify2FAResponseBody verified) 200\<rparr>)"
proof -
  let ?live =
    "[''temp-token-42'' \<mapsto> \<lparr>TokenData.email = ''test@example.com'', createdAt = 43\<rparr>]"
  have code: "''654321'' \<noteq> ''999999''"
    by simp
  have none: "Map.empty ''temp-token-42'' = (None :: TokenData option)"
    by simp
  from code none have no_session:
    "''654321'' \<noteq> ''999999'' \<and> Map.empty ''temp-token-42'' = (None :: TokenData option)"
    by (rule conjI)
  have absent: "verify_2fa_handler Map.empty
        \<lparr>Verify2FACredentials.tempToken = ''temp-token-42'', code = ''654321''\<rparr> =
      (\<lparr>delay_ms = 500,
        response = HttpResponse_json (ApiErrorBody
          \<lparr>error = ''2fa_expired'',
           message = ''2FA session has expired. Please login again.''\<rparr>) 401\<rparr>, Map.empty)"
    by (rule verify_failures_keep_store
        [of "''654321''" Map.empty "''temp-token-42''", THEN conjunct1, THEN mp,
         OF no_session])
  have expired: "verify_2fa_handler ?live
        \<lparr>Verify2FACredentials.tempToken = ''temp-token-42'', code = ''000000''\<rparr> =
      (\<lparr>delay_ms = 500,
        response = HttpResponse_json (ApiErrorBody
          \<lparr>error = ''2fa_expired'',
           message = ''2FA code has expired. Please request a new code.''\<rparr>) 401\<rparr>, ?live)"
    by (rule verify_failures_keep_store
        [of "''000000''" ?live "''temp-token-42''",
         THEN conjunct2, THEN conjunct1, THEN mp]) simp
  have invalid: "verify_2fa_handler ?live
        \<lparr>Verify2FACredentials.tempToken = ''temp-token-42'', code = ''654321''\<rparr> =
      (\<lparr>delay_ms = 500,
        response = HttpResponse_json (ApiErrorBody
          \<lparr>error = ''invalid_2fa_code'',
           message = ''Invalid verification code. Please try again.''\<rparr>) 401\<rparr>, ?live)"
    by (rule verify_failures_keep_store
        [of "''654321''" ?live "''temp-token-42''",
         THEN conjunct2, THEN conjunct2, THEN conjunct1, THEN mp]) simp
  have changed: "snd (verify_2fa_handler ?live
        \<lparr>Verify2FACredentials.tempToken = ''temp-token-42'', code = ''123456''\<rparr>) \<noteq> ?live"
  proof
    assume "snd (verify_2fa_handler ?live
        \<lparr>Verify2FACredentials.tempToken = ''temp-token-42'', code = ''123456''\<rparr>) = ?live"
    then have "(?live(''temp-token-42'' := None)) ''temp-token-42'' = ?live ''temp-token-42''"
      by (simp add: verify_2fa_handler_def test_data_defs)
    then show False
      by simp
  qed
  have success: "\<exists>verified. fst (verify_2fa_handler ?live
        \<lparr>Verify2FACredentials.tempToken = ''temp-token-42'', code = ''123456''\<rparr>) =
      \<lparr>delay_ms = 800, response = HttpResponse_json (Verify2FAResponseBody verified) 200\<rparr>"
    using verify_failures_keep_store
        [of "''123456''" ?live "''temp-token-42''",
         THEN conjunct2, THEN conjunct2, THEN conjunct2, THEN mp, OF changed]
    by (elim conjE)
  from code none absent expired invalid changed success show ?thesis
    by (intro conjI)
qed

subsection \<open>Successful verification\<close>

text \<open>
  C7. Verifying a token present in the store with the code 123456 deletes the token's
  entry and returns a \<^verbatim>\<open>Verify2FAResponse\<close> whose user has the email recorded in
  that entry and whose token is the string fake-jwt-token-after-2fa.
\<close>

theorem valid_code_consumes_pending_session:
  assumes "store tok = Some tokenData"
  shows "\<exists>verified.
      verify_2fa_handler store \<lparr>Verify2FACredentials.tempToken = tok, code = ''123456''\<rparr> =
        (\<lparr>delay_ms = 800, response = HttpResponse_json (Verify2FAResponseBody verified) 200\<rparr>,
         store(tok := None))
      \<and> (store(tok := None)) tok = None
      \<and> User.email (Verify2FAResponse.user verified) = TokenData.email tokenData
      \<and> Verify2FAResponse.token verified = ''fake-jwt-token-after-2fa''"
  using verify_2fa_handler_valid [of store tok tokenData, OF assms] by simp

theorem valid_code_consumes_pending_session_witness:
  "[''temp-token-42'' \<mapsto> \<lparr>TokenData.email = ''slow@example.com'', createdAt = 43\<rparr>]
      ''temp-token-42'' =
     Some \<lparr>TokenData.email = ''slow@example.com'', createdAt = 43\<rparr>
   \<and> (\<exists>verified.
      verify_2fa_handler
        [''temp-token-42'' \<mapsto> \<lparr>TokenData.email = ''slow@example.com'', createdAt = 43\<rparr>]
        \<lparr>Verify2FACredentials.tempToken = ''temp-token-42'', code = ''123456''\<rparr> =
        (\<lparr>delay_ms = 800, response = HttpResponse_json (Verify2FAResponseBody verified) 200\<rparr>,
         Map.empty)
      \<and> User.email (Verify2FAResponse.user verified) = ''slow@example.com''
      \<and> Verify2FAResponse.token verified = ''fake-jwt-token-after-2fa'')"
  using valid_code_consumes_pending_session
    [of "[''temp-token-42'' \<mapsto> \<lparr>TokenData.email = ''slow@example.com'', createdAt = 43\<rparr>]"
        "''temp-token-42''" "\<lparr>TokenData.email = ''slow@example.com'', createdAt = 43\<rparr>"]
  by simp

text \<open>
  C10. Every successful verify response carries the user id 1. In particular the
  login with slow@example.com answers with user id 2, and verifying the token it
  issued answers with user id 1.
\<close>

theorem verified_user_id_is_1:
  "(response (fst (verify_2fa_handler store credentials)) =
      HttpResponse_json (Verify2FAResponseBody verified) st \<longrightarrow>
    id_user (Verify2FAResponse.user verified) = 1)
   \<and> login_handler store' now1 now2
        \<lparr>LoginCredentials.email = ''slow@example.com'', password = password'\<rparr> =
      (\<lparr>delay_ms = 3000,
        response = HttpResponse_json (LoginResponseBody
          \<lparr>LoginResponse.token = '''',
           LoginResponse.user = \<lparr>id_user = 2, User.email = ''slow@example.com''\<rparr>,
           requires2FA = True,
           LoginResponse.tempToken = Some (''temp-token-'' @ String_of_number now1)\<rparr>) 200\<rparr>,
       store'(''temp-token-'' @ String_of_number now1 \<mapsto>
         \<lparr>TokenData.email = ''slow@example.com'', createdAt = now2\<rparr>))
   \<and> fst (verify_2fa_handler
        (store'(''temp-token-'' @ String_of_number now1 \<mapsto>
           \<lparr>TokenData.email = ''slow@example.com'', createdAt = now2\<rparr>))
        \<lparr>Verify2FACredentials.tempToken = ''temp-token-'' @ String_of_number now1,
         code = ''123456''\<rparr>) =
      \<lparr>delay_ms = 800,
       response = HttpResponse_json (Verify2FAResponseBody
         \<lparr>Verify2FAResponse.token = ''fake-jwt-token-after-2fa'',
          Verify2FAResponse.user = \<lparr>id_user = 1, User.email = ''slow@example.com''\<rparr>\<rparr>) 200\<rparr>"
proof -
  have always: "response (fst (verify_2fa_handler store credentials)) =
      HttpResponse_json (Verify2FAResponseBody verified) st \<longrightarrow>
    id_user (Verify2FAResponse.user verified) = 1"
    using verify_2fa_handler_verified(1) [of store credentials verified st] by auto
  have slow: "login_handler store' now1 now2
        \<lparr>LoginCredentials.email = ''slow@example.com'', password = password'\<rparr> =
      (\<lparr>delay_ms = 3000,
        response = HttpResponse_json (LoginResponseBody
          \<lparr>LoginResponse.token = '''',
           LoginResponse.user = \<lparr>id_user = 2, User.email = ''slow@example.com''\<rparr>,
           requires2FA = True,
           LoginResponse.tempToken = Some (''temp-token-'' @ String_of_number now1)\<rparr>) 200\<rparr>,
       store'(''temp-token-'' @ String_of_number now1 \<mapsto>
         \<lparr>TokenData.email = ''slow@example.com'', createdAt = now2\<rparr>))"
    by (simp add: login_handler_def Let_def test_data_defs)
  have then_verify: "fst (verify_2fa_handler
        (store'(''temp-token-'' @ String_of_number now1 \<mapsto>
           \<lparr>TokenData.email = ''slow@example.com'', createdAt = now2\<rparr>))
        \<lparr>Verify2FACredentials.tempToken = ''temp-token-'' @ String_of_number now1,
         code = ''123456''\<rparr>) =
      \<lparr>delay_ms = 800,
       response = HttpResponse_json (Verify2FAResponseBody
         \<lparr>Verify2FAResponse.token = ''fake-jwt-token-after-2fa'',
          Verify2FAResponse.user = \<lparr>id_user = 1, User.email = ''slow@example.com''\<rparr>\<rparr>) 200\<rparr>"
    by (simp add: verify_2fa_handler_valid
        [of _ _ "\<lparr>TokenData.email = ''slow@example.com'', createdAt = now2\<rparr>"])
  from always slow then_verify show ?thesis by blast
qed

theorem verified_user_id_is_1_witness:
  "response (fst (verify_2fa_handler
      [''temp-token-42'' \<mapsto> \<lparr>TokenData.email = ''slow@example.com'', createdAt = 43\<rparr>]
      \<lparr>Verify2FACredentials.tempToken = ''temp-token-42'', code = ''123456''\<rparr>)) =
    HttpResponse_json (Verify2FAResponseBody
      \<lparr>Verify2FAResponse.token = ''fake-jwt-token-after-2fa'',
       Verify2FAResponse.user = \<lparr>id_user = 1, User.email = ''slow@example.com''\<rparr>\<rparr>) 200
   \<and> id_user (Verify2FAResponse.user
      \<lparr>Verify2FAResponse.token = ''fake-jwt-token-after-2fa'',
       Verify2FAResponse.user = \<lparr>id_user = 1, User.email = ''slow@example.com''\<rparr>\<rparr>) = 1"
proof -
  have verified: "response (fst (verify_2fa_handler
      [''temp-token-42'' \<mapsto> \<lparr>TokenData.email = ''slow@example.com'', createdAt = 43\<rparr>]
      \<lparr>Verify2FACredentials.tempToken = ''temp-token-42'', code = ''123456''\<rparr>)) =
    HttpResponse_json (Verify2FAResponseBody
      \<lparr>Verify2FAResponse.token = ''fake-jwt-token-after-2fa'',
       Verify2FAResponse.user = \<lparr>id_user = 1, User.email = ''slow@example.com''\<rparr>\<rparr>) 200"
    by (simp add: verify_2fa_handler_def test_data_defs)
  show ?thesis
    using verified verified_user_id_is_1
      [of "[''temp-token-42'' \<mapsto> \<lparr>TokenData.email = ''slow@example.com'', createdAt = 43\<rparr>]"
          "\<lparr>Verify2FACredentials.tempToken = ''temp-token-42'', code = ''123456''\<rparr>"
          "\<lparr>Verify2FAResponse.token = ''fake-jwt-token-after-2fa'',
            Verify2FAResponse.user = \<lparr>id_user = 1, User.email = ''slow@example.com''\<rparr>\<rparr>" 200]
    by simp
qed


section \<open>Properties of the client\<close>

subsection \<open>The classification of failures\<close>

lemma verify2FA_catch_eq_login_catch: "verify2FA_catch e = login_catch e"
  by (cases e rule: login_catch.cases) simp_all

text \<open>
  C3. A failure for which no response was received is thrown with status 0 by
  \<^verbatim>\<open>login\<close> and by \<^verbatim>\<open>verify2FA\<close> alike: with the code \<^verbatim>\<open>timeout_error\<close> when
  the axios code is \<^verbatim>\<open>ECONNABORTED\<close>, with the code \<^verbatim>\<open>network_error\<close> for every
  other axios error without a response. A failure that is no axios error has status
  0 as well.
\<close>

theorem no_response_classification:
  "login_catch (AxiosError (Some ''ECONNABORTED'') None) =
     \<lparr>status = 0,
      data = ApiErrorBody \<lparr>error = ''timeout_error'', message = ''Request timed out''\<rparr>\<rparr>
   \<and> verify2FA_catch (AxiosError (Some ''ECONNABORTED'') None) =
     \<lparr>status = 0,
      data = ApiErrorBody \<lparr>error = ''timeout_error'', message = ''Request timed out''\<rparr>\<rparr>
   \<and> (axiosCode \<noteq> Some ''ECONNABORTED'' \<longrightarrow>
      login_catch (AxiosError axiosCode None) =
        \<lparr>status = 0,
         data = ApiErrorBody
           \<lparr>error = ''network_error'', message = ''Network error occurred''\<rparr>\<rparr>
      \<and> verify2FA_catch (AxiosError axiosCode None) =
        \<lparr>status = 0,
         data = ApiErrorBody
           \<lparr>error = ''network_error'', message = ''Network error occurred''\<rparr>\<rparr>)
   \<and> status (login_catch NotAxiosError) = 0
   \<and> status (verify2FA_catch NotAxiosError) = 0"
  by simp

theorem no_response_classification_witness:
  "Some ''ERR_NETWORK'' \<noteq> Some ''ECONNABORTED''
   \<and> login_catch (AxiosError (Some ''ERR_NETWORK'') None) =
        \<lparr>status = 0,
         data = ApiErrorBody
           \<lparr>error = ''network_error'', message = ''Network error occurred''\<rparr>\<rparr>
   \<and> verify2FA_catch (AxiosError (Some ''ERR_NETWORK'') None) =
        \<lparr>status = 0,
         data = ApiErrorBody
           \<lparr>error = ''network_error'', message = ''Network error occurred''\<rparr>\<rparr>"
proof -
  have other: "Some ''ERR_NETWORK'' \<noteq> Some ''ECONNABORTED''"
    by simp
  from no_response_classification [of "Some ''ERR_NETWORK''"] other
  show ?thesis by blast
qed

text \<open>
  A response that was received is thrown as it is, also when its body is not an
  \<^verbatim>\<open>ApiError\<close> or carries a code that is none of the five: a 502 with a message
  body keeps status 502, a 429 with the code \<^verbatim>\<open>rate_limited\<close> keeps both. Neither
  becomes \<^verbatim>\<open>unknown_error\<close> with status 0.
\<close>

theorem unexpected_body_counterexample:
  "login_catch (AxiosError (Some ''ERR_BAD_RESPONSE'')
      (Some (502, MessageBody ''Bad Gateway''))) =
     \<lparr>status = 502, data = MessageBody ''Bad Gateway''\<rparr>
   \<and> login_catch (AxiosError (Some ''ERR_BAD_RESPONSE'')
      (Some (502, MessageBody ''Bad Gateway''))) \<noteq>
     \<lparr>status = 0,
      data = ApiErrorBody
        \<lparr>error = ''unknown_error'', message = ''An unexpected error occurred''\<rparr>\<rparr>
   \<and> verify2FA_catch (AxiosError (Some ''ERR_BAD_REQUEST'')
      (Some (429, ApiErrorBody \<lparr>error = ''rate_limited'', message = ''Too many requests''\<rparr>))) =
     \<lparr>status = 429,
      data = ApiErrorBody \<lparr>error = ''rate_limited'', message = ''Too many requests''\<rparr>\<rparr>
   \<and> verify2FA_catch (AxiosError (Some ''ERR_BAD_REQUEST'')
      (Some (429, ApiErrorBody \<lparr>error = ''rate_limited'', message = ''Too many requests''\<rparr>))) \<noteq>
     \<lparr>status = 0,
      data = ApiErrorBody
        \<lparr>error = ''unknown_error'', message = ''An unexpected error occurred''\<rparr>\<rparr>"
  by simp

text \<open>
  C4, with every received response passed through. The classification is total: the
  two \<^verbatim>\<open>catch\<close> blocks agree on every failure and throw one
  \<^verbatim>\<open>{status, data}\<close> object for it. A received response is thrown with its status
  and its body unchanged, whatever the body, so in particular when it carries one of
  the five codes of the server. A failure without a response is thrown with status 0
  and one of the codes \<^verbatim>\<open>timeout_error\<close>, \<^verbatim>\<open>network_error\<close>, \<^verbatim>\<open>unknown_error\<close>.
  What is not an axios error is thrown as \<^verbatim>\<open>unknown_error\<close> with status 0, and
  that outcome arises in no other way, unless a server sends this very body with
  status 0.
\<close>

theorem classification_total_pass_through:
  "verify2FA_catch e = login_catch e
   \<and> login_catch (AxiosError axiosCode (Some (responseStatus, responseData))) =
        \<lparr>status = responseStatus, data = responseData\<rparr>
   \<and> (error apiError \<in> {''invalid_credentials'', ''user_not_found'', ''server_error'',
          ''invalid_2fa_code'', ''2fa_expired''} \<longrightarrow>
        login_catch (AxiosError axiosCode (Some (responseStatus, ApiErrorBody apiError))) =
          \<lparr>status = responseStatus, data = ApiErrorBody apiError\<rparr>)
   \<and> login_catch NotAxiosError =
        \<lparr>status = 0,
         data = ApiErrorBody
           \<lparr>error = ''unknown_error'', message = ''An unexpected error occurred''\<rparr>\<rparr>
   \<and> ((\<forall>axiosCode responseStatus responseData.
          e \<noteq> AxiosError axiosCode (Some (responseStatus, responseData))) \<longrightarrow>
        status (login_catch e) = 0 \<and>
        (\<exists>apiError. data (login_catch e) = ApiErrorBody apiError \<and>
           error apiError \<in> {''timeout_error'', ''network_error'', ''unknown_error''}))
   \<and> (login_catch e =
          \<lparr>status = 0,
           data = ApiErrorBody
             \<lparr>error = ''unknown_error'', message = ''An unexpected error occurred''\<rparr>\<rparr> \<longrightarrow>
        e = NotAxiosError \<or>
        (\<exists>axiosCode. e = AxiosError axiosCode (Some (0, ApiErrorBody
           \<lparr>error = ''unknown_error'', message = ''An unexpected error occurred''\<rparr>))))"
proof -
  have same: "verify2FA_catch e = login_catch e"
    by (rule verify2FA_catch_eq_login_catch)
  have pass: "login_catch (AxiosError axiosCode (Some (responseStatus, responseData))) =
        \<lparr>status = responseStatus, data = responseData\<rparr>"
    by simp
  have five: "error apiError \<in> {''invalid_credentials'', ''user_not_found'', ''server_error'',
          ''invalid_2fa_code'', ''2fa_expired''} \<longrightarrow>
        login_catch (AxiosError axiosCode (Some (responseStatus, ApiErrorBody apiError))) =
          \<lparr>status = responseStatus, data = ApiErrorBody apiError\<rparr>"
    by simp
  have unknown: "login_catch NotAxiosError =
        \<lparr>status = 0,
         data = ApiErrorBody
           \<lparr>error = ''unknown_error'', message = ''An unexpected error occurred''\<rparr>\<rparr>"
    by simp
  have no_response: "(\<forall>axiosCode responseStatus responseData.
          e \<noteq> AxiosError axiosCode (Some (responseStatus, responseData))) \<longrightarrow>
        status (login_catch e) = 0 \<and>
        (\<exists>apiError. data (login_catch e) = ApiErrorBody apiError \<and>
           error apiError \<in> {''timeout_error'', ''network_error'', ''unknown_error''})"
    by (cases e rule: login_catch.cases) simp_all
  have only: "login_catch e =
          \<lparr>status = 0,
           data = ApiErrorBody
             \<lparr>error = ''unknown_error'', message = ''An unexpected error occurred''\<rparr>\<rparr> \<longrightarrow>
        e = NotAxiosError \<or>
        (\<exists>axiosCode. e = AxiosError axiosCode (Some (0, ApiErrorBody
           \<lparr>error = ''unknown_error'', message = ''An unexpected error occurred''\<rparr>)))"
    by (cases e rule: login_catch.cases) (simp_all split: if_splits)
  from same pass five unknown no_response only show ?thesis
    by (intro conjI)
qed

theorem classification_total_pass_through_witness:
  "error \<lparr>error = ''2fa_expired'', message = ''2FA session has expired. Please login again.''\<rparr>
      \<in> {''invalid_credentials'', ''user_not_found'', ''server_error'',
          ''invalid_2fa_code'', ''2fa_expired''}
   \<and> login_catch (AxiosError (Some ''ERR_BAD_REQUEST'') (Some (401, ApiErrorBody
        \<lparr>error = ''2fa_expired'',
         message = ''2FA session has expired. Please login again.''\<rparr>))) =
      \<lparr>status = 401,
       data = ApiErrorBody
         \<lparr>error = ''2fa_expired'',
          message = ''2FA session has expired. Please login again.''\<rparr>\<rparr>
   \<and> (\<forall>axiosCode responseStatus responseData.
        NotAxiosError \<noteq> AxiosError axiosCode (Some (responseStatus, responseData)))
   \<and> status (login_catch NotAxiosError) = 0
   \<and> login_catch NotAxiosError =
      \<lparr>status = 0,
       data = ApiErrorBody
         \<lparr>error = ''unknown_error'', message = ''An unexpected error occurred''\<rparr>\<rparr>
   \<and> verify2FA_catch NotAxiosError = login_catch NotAxiosError"
proof -
  have code: "error
      \<lparr>error = ''2fa_expired'', message = ''2FA session has expired. Please login again.''\<rparr>
      \<in> {''invalid_credentials'', ''user_not_found'', ''server_error'',
          ''invalid_2fa_code'', ''2fa_expired''}"
    by simp
  have shape: "\<forall>axiosCode responseStatus responseData.
        NotAxiosError \<noteq> AxiosError axiosCode (Some (responseStatus, responseData))"
    by simp
  note at_input = classification_total_pass_through
    [of NotAxiosError "Some ''ERR_BAD_REQUEST''" 401
        "ApiErrorBody \<lparr>error = ''2fa_expired'',
           message = ''2FA session has expired. Please login again.''\<rparr>"
        "\<lparr>error = ''2fa_expired'',
           message = ''2FA session has expired. Please login again.''\<rparr>"]
  from at_input have same: "verify2FA_catch NotAxiosError = login_catch NotAxiosError"
    by (rule conjunct1)
  from at_input code have passed: "login_catch (AxiosError (Some ''ERR_BAD_REQUEST'')
      (Some (401, ApiErrorBody
        \<lparr>error = ''2fa_expired'',
         message = ''2FA session has expired. Please login again.''\<rparr>))) =
      \<lparr>status = 401,
       data = ApiErrorBody
         \<lparr>error = ''2fa_expired'',
          message = ''2FA session has expired. Please login again.''\<rparr>\<rparr>"
    by blast
  from at_input shape have zero: "status (login_catch NotAxiosError) = 0"
    by blast
  from at_input have unknown: "login_catch NotAxiosError =
      \<lparr>status = 0,
       data = ApiErrorBody
         \<lparr>error = ''unknown_error'', message = ''An unexpected error occurred''\<rparr>\<rparr>"
    by blast
  from code passed shape zero unknown same show ?thesis
    by (intro conjI)
qed

subsection \<open>The messages\<close>

text \<open>
  C8. For each of the seven codes of the table, with the status listed there, the
  form whose request produces the code renders the message of the table: the login
  form's \<^verbatim>\<open>getErrorMessage\<close> for \<^verbatim>\<open>invalid_credentials\<close> with 401,
  \<^verbatim>\<open>user_not_found\<close> with 404 and \<^verbatim>\<open>server_error\<close> with 500; the 2FA form's for
  \<^verbatim>\<open>invalid_2fa_code\<close> and \<^verbatim>\<open>2fa_expired\<close> with 401; both for \<^verbatim>\<open>timeout_error\<close>
  and \<^verbatim>\<open>network_error\<close> with status 0. The message \<open>m\<close> that came with the code
  plays no part.
\<close>

theorem message_table:
  "getErrorMessage_AuthForm
      \<lparr>status = 401, data = \<lparr>error = ''invalid_credentials'', message = m\<rparr>\<rparr> =
     ''Incorrect email or password.''
   \<and> getErrorMessage_AuthForm
      \<lparr>status = 404, data = \<lparr>error = ''user_not_found'', message = m\<rparr>\<rparr> =
     ''User not found.''
   \<and> getErrorMessage_AuthForm
      \<lparr>status = 500, data = \<lparr>error = ''server_error'', message = m\<rparr>\<rparr> =
     ''Server error. Please try again later.''
   \<and> getErrorMessage_AuthForm
      \<lparr>status = 0, data = \<lparr>error = ''timeout_error'', message = m\<rparr>\<rparr> =
     ''Request timed out. Please try again.''
   \<and> getErrorMessage_AuthForm
      \<lparr>status = 0, data = \<lparr>error = ''network_error'', message = m\<rparr>\<rparr> =
     ''Connection problem. Please check your network.''
   \<and> getErrorMessage_TwoFactorForm
      \<lparr>status = 401, data = \<lparr>error = ''invalid_2fa_code'', message = m\<rparr>\<rparr> =
     ''Invalid verification code. Please try again.''
   \<and> getErrorMessage_TwoFactorForm
      \<lparr>status = 401, data = \<lparr>error = ''2fa_expired'', message = m\<rparr>\<rparr> =
     ''Verification session expired. Please login again.''
   \<and> getErrorMessage_TwoFactorForm
      \<lparr>status = 0, data = \<lparr>error = ''timeout_error'', message = m\<rparr>\<rparr> =
     ''Request timed out. Please try again.''
   \<and> getErrorMessage_TwoFactorForm
      \<lparr>status = 0, data = \<lparr>error = ''network_error'', message = m\<rparr>\<rparr> =
     ''Connection problem. Please check your network.''"
  by (simp add: getErrorMessage_AuthForm_def getErrorMessage_TwoFactorForm_def)

text \<open>
  What each request can throw against the mock server: \<^verbatim>\<open>login\<close> throws the three
  codes of the login route and the two transport codes, \<^verbatim>\<open>verify2FA\<close> the two codes
  of the verify route and the timeout. Neither throws a code of the other route.
\<close>

lemma login_throws:
  assumes "fst (login store now1 now2 credentials) = Inl err"
  shows "err = \<lparr>status = 0,
        data = ApiErrorBody \<lparr>error = ''timeout_error'', message = ''Request timed out''\<rparr>\<rparr>
    \<or> err = \<lparr>status = 0,
        data = ApiErrorBody \<lparr>error = ''network_error'', message = ''Network error occurred''\<rparr>\<rparr>
    \<or> err = \<lparr>status = 500,
        data = ApiErrorBody \<lparr>error = ''server_error'', message = ''Something went wrong''\<rparr>\<rparr>
    \<or> err = \<lparr>status = 404,
        data = ApiErrorBody \<lparr>error = ''user_not_found'', message = ''User does not exist''\<rparr>\<rparr>
    \<or> err = \<lparr>status = 401,
        data = ApiErrorBody
          \<lparr>error = ''invalid_credentials'', message = ''Email or password is incorrect''\<rparr>\<rparr>"
  using assms
  by (auto simp: login_def login_handler_def Let_def apiClient_post_def apiClient_timeout_def
      split: if_splits)

lemma verify2FA_throws:
  assumes "fst (verify2FA store credentials) = Inl err"
  shows "err = \<lparr>status = 0,
        data = ApiErrorBody \<lparr>error = ''timeout_error'', message = ''Request timed out''\<rparr>\<rparr>
    \<or> err = \<lparr>status = 401,
        data = ApiErrorBody
          \<lparr>error = ''2fa_expired'',
           message = ''2FA session has expired. Please login again.''\<rparr>\<rparr>
    \<or> err = \<lparr>status = 401,
        data = ApiErrorBody
          \<lparr>error = ''2fa_expired'',
           message = ''2FA code has expired. Please request a new code.''\<rparr>\<rparr>
    \<or> err = \<lparr>status = 401,
        data = ApiErrorBody
          \<lparr>error = ''invalid_2fa_code'',
           message = ''Invalid verification code. Please try again.''\<rparr>\<rparr>"
  using assms
  by (auto simp: verify2FA_def verify_2fa_handler_def Let_def apiClient_post_def
      apiClient_timeout_def split: if_splits option.splits)

text \<open>
  So each form renders the row of the table for whatever its own request throws.
\<close>

lemma AuthForm_renders_what_login_throws:
  assumes "fst (login store now1 now2 credentials) = Inl err"
  shows "\<exists>apiError. data err = ApiErrorBody apiError \<and>
    (error apiError, status err,
     getErrorMessage_AuthForm \<lparr>status = status err, data = apiError\<rparr>) \<in>
      {(''invalid_credentials'', 401, ''Incorrect email or password.''),
       (''user_not_found'', 404, ''User not found.''),
       (''server_error'', 500, ''Server error. Please try again later.''),
       (''timeout_error'', 0, ''Request timed out. Please try again.''),
       (''network_error'', 0, ''Connection problem. Please check your network.'')}"
  using login_throws [OF assms]
  by (elim disjE) (simp_all add: getErrorMessage_AuthForm_def)

lemma TwoFactorForm_renders_what_verify2FA_throws:
  assumes "fst (verify2FA store credentials) = Inl err"
  shows "\<exists>apiError. data err = ApiErrorBody apiError \<and>
    (error apiError, status err,
     getErrorMessage_TwoFactorForm \<lparr>status = status err, data = apiError\<rparr>) \<in>
      {(''invalid_2fa_code'', 401, ''Invalid verification code. Please try again.''),
       (''2fa_expired'', 401, ''Verification session expired. Please login again.''),
       (''timeout_error'', 0, ''Request timed out. Please try again.''),
       (''network_error'', 0, ''Connection problem. Please check your network.'')}"
  using verify2FA_throws [OF assms]
  by (elim disjE) (simp_all add: getErrorMessage_TwoFactorForm_def)

subsection \<open>The stored token\<close>

lemma isAuthenticated_saveToken: "isAuthenticated (saveToken tok storage') = (tok \<noteq> [])"
  by (simp add: isAuthenticated_def getToken_def saveToken_def)

lemma step_keeps_unauthenticated:
  "\<not> isAuthenticated (storage b) \<Longrightarrow> saves_no_token ev \<Longrightarrow>
   \<not> isAuthenticated (storage (step b ev))"
  by (cases ev) (simp_all add: loginMutation_onSuccess_def isAuthenticated_saveToken)

lemma run_keeps_unauthenticated:
  "\<not> isAuthenticated (storage b) \<Longrightarrow> list_all saves_no_token events \<Longrightarrow>
   \<not> isAuthenticated (storage (run b events))"
  unfolding run_def
proof (induction events arbitrary: b)
  case Nil
  then show ?case by simp
next
  case (Cons ev events)
  from Cons.prems have "\<not> isAuthenticated (storage (step b ev))"
    by (simp add: step_keeps_unauthenticated)
  moreover from Cons.prems have "list_all saves_no_token events"
    by simp
  ultimately have "\<not> isAuthenticated (storage (foldl step (step b ev) events))"
    by (rule Cons.IH)
  then show ?case by simp
qed

lemma login_handler_valid_17:
  "login_handler Map.empty 1700000000000 1700000000001
      \<lparr>LoginCredentials.email = ''test@example.com'', password = ''password123''\<rparr> =
     (\<lparr>delay_ms = 800,
       response = HttpResponse_json (LoginResponseBody
         \<lparr>LoginResponse.token = '''',
          LoginResponse.user = \<lparr>id_user = 1, User.email = ''test@example.com''\<rparr>,
          requires2FA = True,
          LoginResponse.tempToken = Some ''temp-token-1700000000000''\<rparr>) 200\<rparr>,
      [''temp-token-1700000000000'' \<mapsto>
         \<lparr>TokenData.email = ''test@example.com'', createdAt = 1700000000001\<rparr>])"
  by (simp add: login_handler_def Let_def test_data_defs String_of_number_17)

lemma verify_2fa_handler_valid_17:
  "verify_2fa_handler
      [''temp-token-1700000000000'' \<mapsto>
         \<lparr>TokenData.email = ''test@example.com'', createdAt = 1700000000001\<rparr>]
      \<lparr>Verify2FACredentials.tempToken = ''temp-token-1700000000000'', code = ''123456''\<rparr> =
     (\<lparr>delay_ms = 800,
       response = HttpResponse_json (Verify2FAResponseBody
         \<lparr>Verify2FAResponse.token = ''fake-jwt-token-after-2fa'',
          Verify2FAResponse.user = \<lparr>id_user = 1, User.email = ''test@example.com''\<rparr>\<rparr>) 200\<rparr>,
      Map.empty)"
  by (simp add: verify_2fa_handler_def test_data_defs)

text \<open>
  C9. \<^verbatim>\<open>isAuthenticated()\<close> is true exactly when \<^verbatim>\<open>auth_token\<close> is stored and is not
  the empty string. Every \<^verbatim>\<open>LoginResponse\<close> of the login handler has the empty token,
  so after the login form's \<^verbatim>\<open>onSuccess\<close> the stored token is empty and
  \<^verbatim>\<open>isAuthenticated()\<close> is false, whatever was stored before. It stays false through
  every sequence of events that has no successful verification and no login response
  with a non-empty token. After the 2FA form's \<^verbatim>\<open>onSuccess\<close> on a response of the
  verify handler it is true.
\<close>

theorem isAuthenticated_after_login_and_verify:
  "(isAuthenticated storage' \<longleftrightarrow> (\<exists>tok. getToken storage' = Some tok \<and> tok \<noteq> ''''))
   \<and> (response (fst (login_handler store now1 now2 credentials)) =
          HttpResponse_json (LoginResponseBody issued) st \<longrightarrow>
        storage (loginMutation_onSuccess issued b) = saveToken '''' (storage b)
        \<and> \<not> isAuthenticated (storage (loginMutation_onSuccess issued b)))
   \<and> (\<not> isAuthenticated (storage b') \<and> list_all saves_no_token events \<longrightarrow>
        \<not> isAuthenticated (storage (run b' events)))
   \<and> (response (fst (verify_2fa_handler store' credentials')) =
          HttpResponse_json (Verify2FAResponseBody verified) st' \<longrightarrow>
        isAuthenticated (storage (verify2FAMutation_onSuccess verified b'')))"
proof -
  have iff: "isAuthenticated storage' \<longleftrightarrow> (\<exists>tok. getToken storage' = Some tok \<and> tok \<noteq> '''')"
    by (simp add: isAuthenticated_def split: option.split)
  have after_login: "response (fst (login_handler store now1 now2 credentials)) =
          HttpResponse_json (LoginResponseBody issued) st \<longrightarrow>
        storage (loginMutation_onSuccess issued b) = saveToken '''' (storage b)
        \<and> \<not> isAuthenticated (storage (loginMutation_onSuccess issued b))"
    using login_handler_success(3)
      [of store now1 now2 credentials "fst (login_handler store now1 now2 credentials)"
          "snd (login_handler store now1 now2 credentials)" issued st]
    by (simp add: loginMutation_onSuccess_def isAuthenticated_saveToken)
  have until: "\<not> isAuthenticated (storage b') \<and> list_all saves_no_token events \<longrightarrow>
        \<not> isAuthenticated (storage (run b' events))"
    using run_keeps_unauthenticated [of b' events] by blast
  have after_verify: "response (fst (verify_2fa_handler store' credentials')) =
          HttpResponse_json (Verify2FAResponseBody verified) st' \<longrightarrow>
        isAuthenticated (storage (verify2FAMutation_onSuccess verified b''))"
    using verify_2fa_handler_verified(1) [of store' credentials' verified st']
    by (auto simp: verify2FAMutation_onSuccess_def isAuthenticated_saveToken)
  from iff after_login until after_verify show ?thesis
    by (intro conjI)
qed

theorem isAuthenticated_after_login_and_verify_witness:
  "\<not> isAuthenticated (storage (loginMutation_onSuccess
        \<lparr>LoginResponse.token = '''',
         LoginResponse.user = \<lparr>id_user = 1, User.email = ''test@example.com''\<rparr>,
         requires2FA = True,
         LoginResponse.tempToken = Some ''temp-token-1700000000000''\<rparr>
        \<lparr>storage = [''auth_token'' \<mapsto> ''stale-token''], page = LoginPage_initial\<rparr>))
   \<and> \<not> isAuthenticated (storage (run
        \<lparr>storage = [''auth_token'' \<mapsto> ''''], page = LoginPage_initial\<rparr>
        [Verify2FARejected
           \<lparr>status = 401,
            data = \<lparr>error = ''invalid_2fa_code'',
                    message = ''Invalid verification code. Please try again.''\<rparr>\<rparr>,
         BackClicked]))
   \<and> isAuthenticated (storage (verify2FAMutation_onSuccess
        \<lparr>Verify2FAResponse.token = ''fake-jwt-token-after-2fa'',
         Verify2FAResponse.user = \<lparr>id_user = 1, User.email = ''test@example.com''\<rparr>\<rparr>
        \<lparr>storage = [''auth_token'' \<mapsto> ''''], page = LoginPage_initial\<rparr>))"
proof -
  let ?issued = "\<lparr>LoginResponse.token = '''',
         LoginResponse.user = \<lparr>id_user = 1, User.email = ''test@example.com''\<rparr>,
         requires2FA = True,
         LoginResponse.tempToken = Some ''temp-token-1700000000000''\<rparr>"
  let ?verified = "\<lparr>Verify2FAResponse.token = ''fake-jwt-token-after-2fa'',
         Verify2FAResponse.user = \<lparr>id_user = 1, User.email = ''test@example.com''\<rparr>\<rparr>"
  let ?rejected = "Verify2FARejected
           \<lparr>status = 401,
            data = \<lparr>error = ''invalid_2fa_code'',
                    message = ''Invalid verification code. Please try again.''\<rparr>\<rparr>"
  let ?waiting = "\<lparr>storage = [''auth_token'' \<mapsto> ''''], page = LoginPage_initial\<rparr>"
  note at_input = isAuthenticated_after_login_and_verify
    [of _ Map.empty 1700000000000 1700000000001
        "\<lparr>LoginCredentials.email = ''test@example.com'', password = ''password123''\<rparr>"
        ?issued 200
        "\<lparr>storage = [''auth_token'' \<mapsto> ''stale-token''], page = LoginPage_initial\<rparr>"
        ?waiting "[?rejected, BackClicked]"
        "[''temp-token-1700000000000'' \<mapsto>
           \<lparr>TokenData.email = ''test@example.com'', createdAt = 1700000000001\<rparr>]"
        "\<lparr>Verify2FACredentials.tempToken = ''temp-token-1700000000000'', code = ''123456''\<rparr>"
        ?verified 200 ?waiting]
  have login: "response (fst (login_handler Map.empty 1700000000000 1700000000001
      \<lparr>LoginCredentials.email = ''test@example.com'', password = ''password123''\<rparr>)) =
      HttpResponse_json (LoginResponseBody ?issued) 200"
    by (simp add: login_handler_valid_17)
  have quiet: "\<not> isAuthenticated (storage ?waiting)
      \<and> list_all saves_no_token [?rejected, BackClicked]"
    by (simp add: isAuthenticated_def getToken_def)
  have verify: "response (fst (verify_2fa_handler
      [''temp-token-1700000000000'' \<mapsto>
         \<lparr>TokenData.email = ''test@example.com'', createdAt = 1700000000001\<rparr>]
      \<lparr>Verify2FACredentials.tempToken = ''temp-token-1700000000000'', code = ''123456''\<rparr>)) =
      HttpResponse_json (Verify2FAResponseBody ?verified) 200"
    by (simp add: verify_2fa_handler_valid_17)
  from at_input login have after_login: "\<not> isAuthenticated (storage (loginMutation_onSuccess
      ?issued \<lparr>storage = [''auth_token'' \<mapsto> ''stale-token''], page = LoginPage_initial\<rparr>))"
    by blast
  from at_input quiet have until:
    "\<not> isAuthenticated (storage (run ?waiting [?rejected, BackClicked]))"
    by blast
  from at_input verify have after_verify:
    "isAuthenticated (storage (verify2FAMutation_onSuccess ?verified ?waiting))"
    by blast
  from after_login until after_verify show ?thesis
    by (intro conjI)
qed

subsection \<open>The states of the flow\<close>

lemma step_authenticated:
  "isFullyAuthenticated (page (step b ev)) \<Longrightarrow>
   isFullyAuthenticated (page b) \<or> is_Verify2FAResolved ev \<or> skips_2FA ev"
  by (cases ev)
    (auto simp: loginMutation_onSuccess_def handleLoginSuccess_def handleBackToLogin_def
      signOut_onClick_def split: option.splits if_splits)

lemma run_authenticated:
  "isFullyAuthenticated (page (run b events)) \<Longrightarrow>
   isFullyAuthenticated (page b) \<or> list_ex is_Verify2FAResolved events
   \<or> list_ex skips_2FA events"
  unfolding run_def
proof (induction events arbitrary: b)
  case Nil
  then show ?case by simp
next
  case (Cons ev events)
  from Cons.prems have "isFullyAuthenticated (page (foldl step (step b ev) events))"
    by simp
  then have "isFullyAuthenticated (page (step b ev)) \<or> list_ex is_Verify2FAResolved events
      \<or> list_ex skips_2FA events"
    by (rule Cons.IH)
  then show ?case
    using step_authenticated [of b ev] by auto
qed

lemma skips_2FA_iff:
  "skips_2FA ev \<longleftrightarrow> is_direct_login ev \<or> requires2FA_without_tempToken ev"
  by (cases ev) (auto split: option.splits)

lemma list_ex_skips_2FA:
  "list_ex skips_2FA events \<Longrightarrow>
   list_ex is_direct_login events \<or> list_ex requires2FA_without_tempToken events"
  by (induction events) (auto simp: skips_2FA_iff)

lemma render_Authenticated: "render p = Authenticated \<longleftrightarrow> isFullyAuthenticated p"
  by (simp add: render_def)

text \<open>
  \<^verbatim>\<open>handleLoginSuccess\<close> has a branch for a login without 2FA: a login response
  whose \<^verbatim>\<open>requires2FA\<close> is false takes the page from the login form to the success
  screen, with no verification.
\<close>

theorem direct_login_counterexample:
  "render (page (run \<lparr>storage = Map.empty, page = LoginPage_initial\<rparr>
      [LoginResolved
        \<lparr>LoginResponse.token = ''direct-token'',
         LoginResponse.user = \<lparr>id_user = 1, User.email = ''test@example.com''\<rparr>,
         requires2FA = False,
         LoginResponse.tempToken = None\<rparr>])) = Authenticated
   \<and> \<not> list_ex is_Verify2FAResolved
      [LoginResolved
        \<lparr>LoginResponse.token = ''direct-token'',
         LoginResponse.user = \<lparr>id_user = 1, User.email = ''test@example.com''\<rparr>,
         requires2FA = False,
         LoginResponse.tempToken = None\<rparr>]"
  by (simp add: run_def loginMutation_onSuccess_def handleLoginSuccess_def render_def
      LoginPage_initial_def)

text \<open>
  C2, with the direct login. Starting from the login form, take any sequence of
  login and verify responses (and of clicks on "back" and "sign out") in which every
  login response that requires 2FA carries a non-empty \<^verbatim>\<open>tempToken\<close>. After it the
  page shows the success screen only if a successful verify response is among the
  events, or a successful login response whose \<^verbatim>\<open>requires2FA\<close> is false.
\<close>

theorem authenticated_only_via_verify_or_direct_login:
  "\<not> list_ex requires2FA_without_tempToken events \<longrightarrow>
   render (page (run \<lparr>storage = storage0, page = LoginPage_initial\<rparr> events)) = Authenticated
     \<longrightarrow>
   list_ex is_Verify2FAResolved events \<or> list_ex is_direct_login events"
proof (intro impI)
  assume carried: "\<not> list_ex requires2FA_without_tempToken events"
  assume "render (page (run \<lparr>storage = storage0, page = LoginPage_initial\<rparr> events)) =
    Authenticated"
  then have "isFullyAuthenticated
      (page (run \<lparr>storage = storage0, page = LoginPage_initial\<rparr> events))"
    by (simp add: render_Authenticated)
  then have "isFullyAuthenticated (page \<lparr>storage = storage0, page = LoginPage_initial\<rparr>)
      \<or> list_ex is_Verify2FAResolved events \<or> list_ex skips_2FA events"
    by (rule run_authenticated)
  then have "list_ex is_Verify2FAResolved events \<or> list_ex skips_2FA events"
    by (simp add: LoginPage_initial_def)
  with carried show "list_ex is_Verify2FAResolved events \<or> list_ex is_direct_login events"
    using list_ex_skips_2FA [of events] by blast
qed

theorem authenticated_only_via_verify_or_direct_login_witness:
  "\<not> list_ex requires2FA_without_tempToken
      [LoginResolved
         \<lparr>LoginResponse.token = '''',
          LoginResponse.user = \<lparr>id_user = 1, User.email = ''test@example.com''\<rparr>,
          requires2FA = True,
          LoginResponse.tempToken = Some ''temp-token-1700000000000''\<rparr>,
       Verify2FAResolved
         \<lparr>Verify2FAResponse.token = ''fake-jwt-token-after-2fa'',
          Verify2FAResponse.user = \<lparr>id_user = 1, User.email = ''test@example.com''\<rparr>\<rparr>]
   \<and> render (page (run \<lparr>storage = Map.empty, page = LoginPage_initial\<rparr>
      [LoginResolved
         \<lparr>LoginResponse.token = '''',
          LoginResponse.user = \<lparr>id_user = 1, User.email = ''test@example.com''\<rparr>,
          requires2FA = True,
          LoginResponse.tempToken = Some ''temp-token-1700000000000''\<rparr>,
       Verify2FAResolved
         \<lparr>Verify2FAResponse.token = ''fake-jwt-token-after-2fa'',
          Verify2FAResponse.user = \<lparr>id_user = 1, User.email = ''test@example.com''\<rparr>\<rparr>])) =
     Authenticated
   \<and> (list_ex is_Verify2FAResolved
      [LoginResolved
         \<lparr>LoginResponse.token = '''',
          LoginResponse.user = \<lparr>id_user = 1, User.email = ''test@example.com''\<rparr>,
          requires2FA = True,
          LoginResponse.tempToken = Some ''temp-token-1700000000000''\<rparr>,
       Verify2FAResolved
         \<lparr>Verify2FAResponse.token = ''fake-jwt-token-after-2fa'',
          Verify2FAResponse.user = \<lparr>id_user = 1, User.email = ''test@example.com''\<rparr>\<rparr>]
     \<or> list_ex is_direct_login
      [LoginResolved
         \<lparr>LoginResponse.token = '''',
          LoginResponse.user = \<lparr>id_user = 1, User.email = ''test@example.com''\<rparr>,
          requires2FA = True,
          LoginResponse.tempToken = Some ''temp-token-1700000000000''\<rparr>,
       Verify2FAResolved
         \<lparr>Verify2FAResponse.token = ''fake-jwt-token-after-2fa'',
          Verify2FAResponse.user = \<lparr>id_user = 1, User.email = ''test@example.com''\<rparr>\<rparr>])"
proof -
  let ?issued = "\<lparr>LoginResponse.token = '''',
          LoginResponse.user = \<lparr>id_user = 1, User.email = ''test@example.com''\<rparr>,
          requires2FA = True,
          LoginResponse.tempToken = Some ''temp-token-1700000000000''\<rparr>"
  let ?verified = "\<lparr>Verify2FAResponse.token = ''fake-jwt-token-after-2fa'',
          Verify2FAResponse.user = \<lparr>id_user = 1, User.email = ''test@example.com''\<rparr>\<rparr>"
  have carried: "\<not> list_ex requires2FA_without_tempToken
      [LoginResolved ?issued, Verify2FAResolved ?verified]"
    by simp
  have reached: "render (page (run \<lparr>storage = Map.empty, page = LoginPage_initial\<rparr>
      [LoginResolved ?issued, Verify2FAResolved ?verified])) = Authenticated"
    by (simp add: run_def loginMutation_onSuccess_def verify2FAMutation_onSuccess_def
        handleLoginSuccess_def handle2FASuccess_def render_def LoginPage_initial_def)
  have via: "list_ex is_Verify2FAResolved
        [LoginResolved ?issued, Verify2FAResolved ?verified]
      \<or> list_ex is_direct_login [LoginResolved ?issued, Verify2FAResolved ?verified]"
    by (rule authenticated_only_via_verify_or_direct_login
        [of "[LoginResolved ?issued, Verify2FAResolved ?verified]" Map.empty,
         THEN mp, THEN mp, OF carried reached])
  from carried reached via show ?thesis
    by (intro conjI)
qed

text \<open>
  What the page receives from the mock server through \<^verbatim>\<open>login\<close>. The reply of the
  timeout branch, status 200 with a message and no \<^verbatim>\<open>requires2FA\<close>, comes after the
  client's deadline and is never returned; every value \<^verbatim>\<open>login\<close> returns is a
  \<^verbatim>\<open>LoginResponse\<close> that requires 2FA and carries a token.
\<close>

lemma login_returns_2FA_response:
  assumes "fst (login store now1 now2 credentials) = Inr responseData"
  shows "\<exists>issued. responseData = LoginResponseBody issued \<and> requires2FA issued \<and>
    LoginResponse.tempToken issued = Some (''temp-token-'' @ String_of_number now1) \<and>
    \<not> is_direct_login (LoginResolved issued) \<and>
    \<not> requires2FA_without_tempToken (LoginResolved issued)"
  using assms
  by (auto simp: login_def login_handler_def Let_def apiClient_post_def apiClient_timeout_def
      split: if_splits)

end
